theory Spec2Isabelle
  imports Main "HOL-Library.AList" "HOL-Library.Sublist"
begin

section \<open>Strings and errors\<close>

text \<open>
  A JavaScript string is a sequence of UTF-16 code units. The texts of the program are
  Arabic, so a string is modelled as the list of its code units, written as hexadecimal
  numerals; an ASCII literal is injected with \<open>ascii\<close>.
\<close>

type_synonym jsstring = "nat list"

definition ascii :: "string \<Rightarrow> jsstring" where
  "ascii s = map of_char s"

text \<open>
  The error objects of the program. \<open>ApiError\<close> is an error raised by the generation
  service, with its \<^verbatim>\<open>status\<close> field (absent on errors that have none) and its message;
  \<open>TypeError\<close> is what reading a property of \<^verbatim>\<open>undefined\<close> raises.
\<close>

datatype js_error = TypeError | ApiError "int option" jsstring

fun status :: "js_error \<Rightarrow> int option" where
  "status (ApiError st msg) = st"
| "status TypeError = None"

section \<open>The generation service and the retry loop\<close>

text \<open>
  The outcome of one attempt (\<^verbatim>\<open>model.generateContent\<close>, \<^verbatim>\<open>result.response\<close> and
  \<^verbatim>\<open>response.text()\<close>, all inside one \<^verbatim>\<open>try\<close>) is a text or an error that is thrown. The
  service is an oracle: its outcome may depend on the prompt and on which attempt of the
  call it is. The variable \<^verbatim>\<open>model\<close> stays \<^verbatim>\<open>undefined\<close> when the configuration at process
  start failed; every attempt then raises a \<open>TypeError\<close>.
\<close>

type_synonym model = "jsstring \<Rightarrow> nat \<Rightarrow> js_error + jsstring"

definition call_model :: "model option \<Rightarrow> jsstring \<Rightarrow> nat \<Rightarrow> js_error + jsstring" where
  "call_model m prompt attempt =
     (case m of None \<Rightarrow> Inl TypeError | Some f \<Rightarrow> f prompt attempt)"

text \<open>
  The observable effects of a call of \<^verbatim>\<open>generateContentWithRetry\<close>, in order: a request
  to the service (with the attempt number) and a sleep (in milliseconds).
\<close>

datatype event = Call nat | Sleep nat

text \<open>
  \<^verbatim>\<open>for (let attempt = 1; attempt <= maxRetries; attempt++) { try {...} catch (error) {...} }
  throw lastError;\<close>
  The loop from a given attempt number on, with \<^verbatim>\<open>lastError\<close> (\<open>None\<close> while it is
  \<^verbatim>\<open>undefined\<close>) and the effects so far. \<^verbatim>\<open>maxRetries\<close> is a number of attempts, a natural
  number. The function returns a text or throws the value of \<^verbatim>\<open>lastError\<close>.
\<close>

function retry_loop ::
  "model option \<Rightarrow> jsstring \<Rightarrow> nat \<Rightarrow> nat \<Rightarrow> js_error option \<Rightarrow> event list
     \<Rightarrow> (js_error option + jsstring) \<times> event list" where
  "retry_loop m prompt maxRetries attempt lastError tr =
     (if attempt \<le> maxRetries then
        (case call_model m prompt attempt of
           Inr text \<Rightarrow> (Inr text, tr @ [Call attempt])
         | Inl error \<Rightarrow>
             if status error = Some 429 then
               (let waitTime = attempt * 2000 in
                retry_loop m prompt maxRetries (attempt + 1) (Some error)
                  (tr @ [Call attempt, Sleep waitTime]))
             else (Inl (Some error), tr @ [Call attempt]))
      else (Inl lastError, tr))"
  by pat_completeness auto
termination
  by (relation "measure (\<lambda>(m, prompt, maxRetries, attempt, lastError, tr).
        maxRetries + 1 - attempt)") auto

declare retry_loop.simps [simp del]

definition generateContentWithRetry ::
  "model option \<Rightarrow> jsstring \<Rightarrow> nat \<Rightarrow> (js_error option + jsstring) \<times> event list" where
  "generateContentWithRetry m prompt maxRetries =
     retry_loop m prompt maxRetries 1 None []"

text \<open>The callers pass no second argument: \<^verbatim>\<open>maxRetries = 3\<close>.\<close>

definition generate :: "model option \<Rightarrow> jsstring \<Rightarrow> js_error option + jsstring" where
  "generate m prompt = fst (generateContentWithRetry m prompt 3)"

text \<open>The number of requests and the total time slept in a list of effects.\<close>

fun attempts :: "event list \<Rightarrow> nat" where
  "attempts [] = 0"
| "attempts (Call i # es) = Suc (attempts es)"
| "attempts (Sleep w # es) = attempts es"

fun slept :: "event list \<Rightarrow> nat" where
  "slept [] = 0"
| "slept (Call i # es) = slept es"
| "slept (Sleep w # es) = w + slept es"

section \<open>The texts of the program\<close>

text \<open>
  The nine sections of the canvas, in the order of \<^verbatim>\<open>BMC_SECTIONS\<close>.
\<close>

definition BMC_SECTIONS :: "jsstring list" where
  "BMC_SECTIONS =
    [ascii ''Key Partners'',
     ascii ''Key Activities'',
     ascii ''Value Propositions'',
     ascii ''Customer Relationships'',
     ascii ''Customer Segments'',
     ascii ''Key Resources'',
     ascii ''Channels'',
     ascii ''Cost Structure'',
     ascii ''Revenue Streams'']"

text \<open>The Arabic label of each section (\<^verbatim>\<open>sectionNames\<close>), as UTF-16 code units.\<close>

definition sectionNames :: "(jsstring \<times> jsstring) list" where
  "sectionNames =
    [(ascii ''Key Partners'',
      [0x627, 0x644, 0x634, 0x631, 0x643, 0x627, 0x621, 0x20, 0x627, 0x644, 0x631, 0x626,
       0x64A, 0x633, 0x64A, 0x648, 0x646]),
     (ascii ''Key Activities'',
      [0x627, 0x644, 0x623, 0x646, 0x634, 0x637, 0x629, 0x20, 0x627, 0x644, 0x631, 0x626,
       0x64A, 0x633, 0x64A, 0x629]),
     (ascii ''Value Propositions'',
      [0x627, 0x644, 0x642, 0x64A, 0x645, 0x629, 0x20, 0x627, 0x644, 0x645, 0x642, 0x62F,
       0x645, 0x629]),
     (ascii ''Customer Relationships'',
      [0x639, 0x644, 0x627, 0x642, 0x627, 0x62A, 0x20, 0x627, 0x644, 0x639, 0x645, 0x644,
       0x627, 0x621]),
     (ascii ''Customer Segments'',
      [0x634, 0x631, 0x627, 0x626, 0x62D, 0x20, 0x627, 0x644, 0x639, 0x645, 0x644, 0x627, 0x621]),
     (ascii ''Key Resources'',
      [0x627, 0x644, 0x645, 0x648, 0x627, 0x631, 0x62F, 0x20, 0x627, 0x644, 0x631, 0x626,
       0x64A, 0x633, 0x64A, 0x629]),
     (ascii ''Channels'',
      [0x642, 0x646, 0x648, 0x627, 0x62A, 0x20, 0x627, 0x644, 0x62A, 0x648, 0x632, 0x64A, 0x639]),
     (ascii ''Cost Structure'',
      [0x647, 0x64A, 0x643, 0x644, 0x20, 0x627, 0x644, 0x62A, 0x643, 0x627, 0x644, 0x64A, 0x641]),
     (ascii ''Revenue Streams'',
      [0x62A, 0x62F, 0x641, 0x642, 0x627, 0x62A, 0x20, 0x627, 0x644, 0x625, 0x64A, 0x631,
       0x627, 0x62F, 0x627, 0x62A])]"

text \<open>The three constant pieces of the prompt template of \<^verbatim>\<open>generateNextQuestion\<close>:
  the text before the first \<^verbatim>\<open>${arabicSection}\<close>, the text between the two, and the text after
  the second.\<close>

definition bmc_prompt_1 :: jsstring where
  "bmc_prompt_1 =
    [0xA, 0x623, 0x646, 0x62A, 0x20, 0x645, 0x633, 0x62A, 0x634, 0x627, 0x631, 0x20, 0x644,
     0x645, 0x634, 0x627, 0x631, 0x64A, 0x639, 0x20, 0x637, 0x644, 0x627, 0x628, 0x20, 0x62D,
     0x627, 0x636, 0x646, 0x629, 0x20, 0x623, 0x639, 0x645, 0x627, 0x644, 0x20, 0x33, 0x77,
     0x69, 0x6E, 0x20, 0x641, 0x64A, 0x20, 0x645, 0x631, 0x643, 0x632, 0x20, 0x62C, 0x627,
     0x645, 0x639, 0x64A, 0x20, 0x645, 0x63A, 0x646, 0x64A, 0x629, 0x2E, 0xA, 0x642, 0x633,
     0x645, 0x20, 0x627, 0x644, 0x646, 0x645, 0x648, 0x630, 0x62C, 0x20, 0x627, 0x644, 0x62D,
     0x627, 0x644, 0x64A, 0x3A, 0x20, 0x22]"

definition bmc_prompt_2 :: jsstring where
  "bmc_prompt_2 =
    [0x22, 0x2E, 0xA, 0x627, 0x643, 0x62A, 0x628, 0x20, 0x633, 0x624, 0x627, 0x644, 0x627,
     0x64B, 0x20, 0x648, 0x627, 0x62D, 0x62F, 0x627, 0x64B, 0x20, 0x628, 0x627, 0x644, 0x644,
     0x63A, 0x629, 0x20, 0x627, 0x644, 0x639, 0x631, 0x628, 0x64A, 0x629, 0x20, 0x644, 0x62A,
     0x648, 0x62C, 0x64A, 0x647, 0x20, 0x627, 0x644, 0x637, 0x627, 0x644, 0x628, 0x20, 0x641,
     0x64A, 0x20, 0x647, 0x630, 0x627, 0x20, 0x627, 0x644, 0x642, 0x633, 0x645, 0x2E, 0xA,
     0x64A, 0x62C, 0x628, 0x20, 0x623, 0x646, 0x20, 0x64A, 0x643, 0x648, 0x646, 0x20, 0x627,
     0x644, 0x633, 0x624, 0x627, 0x644, 0x20, 0x648, 0x627, 0x636, 0x62D, 0x627, 0x64B, 0x20,
     0x648, 0x645, 0x628, 0x627, 0x634, 0x631, 0x627, 0x64B, 0x20, 0x648, 0x64A, 0x62A, 0x639,
     0x644, 0x642, 0x20, 0x628, 0x640, 0x20]"

definition bmc_prompt_3 :: jsstring where
  "bmc_prompt_3 =
    [0x2E, 0xA]"

text \<open>The fixed question of each section (\<^verbatim>\<open>fallbackQuestions\<close>), used when generation fails.\<close>

definition fallbackQuestions :: "(jsstring \<times> jsstring) list" where
  "fallbackQuestions =
    [(ascii ''Key Partners'',
      [0x645, 0x646, 0x20, 0x647, 0x645, 0x20, 0x627, 0x644, 0x634, 0x631, 0x643, 0x627, 0x621,
       0x20, 0x627, 0x644, 0x631, 0x626, 0x64A, 0x633, 0x64A, 0x648, 0x646, 0x20, 0x627, 0x644,
       0x630, 0x64A, 0x646, 0x20, 0x62A, 0x62D, 0x62A, 0x627, 0x62C, 0x647, 0x645, 0x20, 0x644,
       0x62A, 0x646, 0x641, 0x64A, 0x630, 0x20, 0x645, 0x634, 0x631, 0x648, 0x639, 0x643, 0x61F]),
     (ascii ''Key Activities'',
      [0x645, 0x627, 0x20, 0x647, 0x64A, 0x20, 0x627, 0x644, 0x623, 0x646, 0x634, 0x637, 0x629,
       0x20, 0x627, 0x644, 0x631, 0x626, 0x64A, 0x633, 0x64A, 0x629, 0x20, 0x627, 0x644, 0x62A,
       0x64A, 0x20, 0x64A, 0x62C, 0x628, 0x20, 0x627, 0x644, 0x642, 0x64A, 0x627, 0x645, 0x20,
       0x628, 0x647, 0x627, 0x20, 0x644, 0x62A, 0x642, 0x62F, 0x64A, 0x645, 0x20, 0x642, 0x64A,
       0x645, 0x629, 0x20, 0x644, 0x644, 0x639, 0x645, 0x644, 0x627, 0x621, 0x61F]),
     (ascii ''Value Propositions'',
      [0x645, 0x627, 0x20, 0x647, 0x64A, 0x20, 0x627, 0x644, 0x642, 0x64A, 0x645, 0x629, 0x20,
       0x627, 0x644, 0x645, 0x645, 0x64A, 0x632, 0x629, 0x20, 0x627, 0x644, 0x62A, 0x64A, 0x20,
       0x64A, 0x642, 0x62F, 0x645, 0x647, 0x627, 0x20, 0x645, 0x634, 0x631, 0x648, 0x639,
       0x643, 0x20, 0x644, 0x644, 0x639, 0x645, 0x644, 0x627, 0x621, 0x61F]),
     (ascii ''Customer Relationships'',
      [0x643, 0x64A, 0x641, 0x20, 0x633, 0x62A, 0x628, 0x646, 0x64A, 0x20, 0x648, 0x62A, 0x62D,
       0x627, 0x641, 0x638, 0x20, 0x639, 0x644, 0x649, 0x20, 0x639, 0x644, 0x627, 0x642, 0x627,
       0x62A, 0x20, 0x645, 0x639, 0x20, 0x639, 0x645, 0x644, 0x627, 0x626, 0x643, 0x61F]),
     (ascii ''Customer Segments'',
      [0x645, 0x646, 0x20, 0x647, 0x645, 0x20, 0x627, 0x644, 0x639, 0x645, 0x644, 0x627, 0x621,
       0x20, 0x627, 0x644, 0x645, 0x633, 0x62A, 0x647, 0x62F, 0x641, 0x648, 0x646, 0x20, 0x644,
       0x645, 0x634, 0x631, 0x648, 0x639, 0x643, 0x61F]),
     (ascii ''Key Resources'',
      [0x645, 0x627, 0x20, 0x647, 0x64A, 0x20, 0x627, 0x644, 0x645, 0x648, 0x627, 0x631, 0x62F,
       0x20, 0x627, 0x644, 0x631, 0x626, 0x64A, 0x633, 0x64A, 0x629, 0x20, 0x627, 0x644, 0x62A,
       0x64A, 0x20, 0x62A, 0x62D, 0x62A, 0x627, 0x62C, 0x647, 0x627, 0x20, 0x644, 0x62A, 0x634,
       0x63A, 0x64A, 0x644, 0x20, 0x627, 0x644, 0x645, 0x634, 0x631, 0x648, 0x639, 0x61F]),
     (ascii ''Channels'',
      [0x643, 0x64A, 0x641, 0x20, 0x633, 0x62A, 0x635, 0x644, 0x20, 0x625, 0x644, 0x649, 0x20,
       0x639, 0x645, 0x644, 0x627, 0x626, 0x643, 0x20, 0x648, 0x62A, 0x642, 0x62F, 0x645, 0x20,
       0x644, 0x647, 0x645, 0x20, 0x62E, 0x62F, 0x645, 0x627, 0x62A, 0x643, 0x61F]),
     (ascii ''Cost Structure'',
      [0x645, 0x627, 0x20, 0x647, 0x64A, 0x20, 0x627, 0x644, 0x62A, 0x643, 0x627, 0x644, 0x64A,
       0x641, 0x20, 0x627, 0x644, 0x631, 0x626, 0x64A, 0x633, 0x64A, 0x629, 0x20, 0x627, 0x644,
       0x62A, 0x64A, 0x20, 0x633, 0x62A, 0x62A, 0x62D, 0x645, 0x644, 0x647, 0x627, 0x20, 0x641,
       0x64A, 0x20, 0x645, 0x634, 0x631, 0x648, 0x639, 0x643, 0x61F]),
     (ascii ''Revenue Streams'',
      [0x643, 0x64A, 0x641, 0x20, 0x633, 0x62A, 0x62D, 0x642, 0x642, 0x20, 0x627, 0x644, 0x625,
       0x64A, 0x631, 0x627, 0x62F, 0x627, 0x62A, 0x20, 0x645, 0x646, 0x20, 0x645, 0x634, 0x631,
       0x648, 0x639, 0x643, 0x61F])]"

text \<open>The literal on the right of \<^verbatim>\<open>fallbackQuestions[section] || ...\<close> ("tell me more about this
  side of your project").\<close>

definition default_fallbackMessage :: jsstring where
  "default_fallbackMessage =
    [0x623, 0x62E, 0x628, 0x631, 0x646, 0x64A, 0x20, 0x627, 0x644, 0x645, 0x632, 0x64A, 0x62F,
     0x20, 0x639, 0x646, 0x20, 0x647, 0x630, 0x627, 0x20, 0x627, 0x644, 0x62C, 0x627, 0x646,
     0x628, 0x20, 0x645, 0x646, 0x20, 0x645, 0x634, 0x631, 0x648, 0x639, 0x643, 0x2E]"

text \<open>The values of \<^verbatim>\<open>designContext\<close>: the initial one ("general") and the one each rule
  assigns: logo design, website design, visual identity, cover design, design of social media
  posts, design of presentations.\<close>

definition ctx_general :: jsstring where
  "ctx_general =
    [0x639, 0x627, 0x645]"

definition ctx_logo :: jsstring where
  "ctx_logo =
    [0x62A, 0x635, 0x645, 0x64A, 0x645, 0x20, 0x627, 0x644, 0x634, 0x639, 0x627, 0x631]"

definition ctx_website :: jsstring where
  "ctx_website =
    [0x62A, 0x635, 0x645, 0x64A, 0x645, 0x20, 0x627, 0x644, 0x645, 0x648, 0x642, 0x639, 0x20,
     0x627, 0x644, 0x625, 0x644, 0x643, 0x62A, 0x631, 0x648, 0x646, 0x64A]"

definition ctx_identity :: jsstring where
  "ctx_identity =
    [0x627, 0x644, 0x647, 0x648, 0x64A, 0x629, 0x20, 0x627, 0x644, 0x628, 0x635, 0x631, 0x64A,
     0x629]"

definition ctx_cover :: jsstring where
  "ctx_cover =
    [0x62A, 0x635, 0x645, 0x64A, 0x645, 0x20, 0x627, 0x644, 0x63A, 0x644, 0x627, 0x641]"

definition ctx_social :: jsstring where
  "ctx_social =
    [0x62A, 0x635, 0x645, 0x64A, 0x645, 0x20, 0x645, 0x646, 0x634, 0x648, 0x631, 0x627, 0x62A,
     0x20, 0x648, 0x633, 0x627, 0x626, 0x644, 0x20, 0x627, 0x644, 0x62A, 0x648, 0x627, 0x635,
     0x644]"

definition ctx_slides :: jsstring where
  "ctx_slides =
    [0x62A, 0x635, 0x645, 0x64A, 0x645, 0x20, 0x627, 0x644, 0x639, 0x631, 0x648, 0x636, 0x20,
     0x627, 0x644, 0x62A, 0x642, 0x62F, 0x64A, 0x645, 0x64A, 0x629]"

text \<open>The three constant pieces of the prompt template of \<^verbatim>\<open>handleDesignAssistant\<close>: before
  \<^verbatim>\<open>${designContext}\<close>, between it and \<^verbatim>\<open>${userMessage}\<close>, and after.\<close>

definition design_prompt_1 :: jsstring where
  "design_prompt_1 =
    [0xA, 0x623, 0x646, 0x62A, 0x20, 0x645, 0x633, 0x627, 0x639, 0x62F, 0x20, 0x630, 0x643,
     0x64A, 0x20, 0x645, 0x62A, 0x62E, 0x635, 0x635, 0x20, 0x641, 0x64A, 0x20, 0x627, 0x644,
     0x62A, 0x635, 0x645, 0x64A, 0x645, 0x20, 0x627, 0x644, 0x62C, 0x631, 0x627, 0x641, 0x64A,
     0x643, 0x64A, 0x20, 0x648, 0x62A, 0x637, 0x648, 0x64A, 0x631, 0x20, 0x627, 0x644, 0x645,
     0x634, 0x627, 0x631, 0x64A, 0x639, 0x20, 0x644, 0x637, 0x644, 0x627, 0x628, 0x20, 0x62D,
     0x627, 0x636, 0x646, 0x629, 0x20, 0x623, 0x639, 0x645, 0x627, 0x644, 0x20, 0x33, 0x77,
     0x69, 0x6E, 0x2E, 0xA, 0x627, 0x644, 0x645, 0x62C, 0x627, 0x644, 0x3A, 0x20]"

definition design_prompt_2 :: jsstring where
  "design_prompt_2 =
    [0xA, 0x633, 0x624, 0x627, 0x644, 0x20, 0x627, 0x644, 0x637, 0x627, 0x644, 0x628, 0x3A,
     0x20, 0x22]"

definition design_prompt_3 :: jsstring where
  "design_prompt_3 =
    [0x22, 0xA, 0xA, 0x642, 0x645, 0x20, 0x628, 0x62A, 0x642, 0x62F, 0x64A, 0x645, 0x20, 0x627,
     0x644, 0x645, 0x633, 0x627, 0x639, 0x62F, 0x629, 0x20, 0x641, 0x64A, 0x3A, 0xA, 0x31,
     0x2E, 0x20, 0x646, 0x635, 0x627, 0x626, 0x62D, 0x20, 0x62A, 0x635, 0x645, 0x64A, 0x645,
     0x64A, 0x629, 0x20, 0x639, 0x645, 0x644, 0x64A, 0x629, 0xA, 0x32, 0x2E, 0x20, 0x623,
     0x641, 0x643, 0x627, 0x631, 0x20, 0x625, 0x628, 0x62F, 0x627, 0x639, 0x64A, 0x629, 0x20,
     0x645, 0x646, 0x627, 0x633, 0x628, 0x629, 0x20, 0x644, 0x644, 0x645, 0x634, 0x627, 0x631,
     0x64A, 0x639, 0x20, 0x627, 0x644, 0x646, 0x627, 0x634, 0x626, 0x629, 0xA, 0x33, 0x2E,
     0x20, 0x62A, 0x648, 0x62C, 0x647, 0x627, 0x62A, 0x20, 0x62D, 0x648, 0x644, 0x20, 0x627,
     0x644, 0x623, 0x644, 0x648, 0x627, 0x646, 0x20, 0x648, 0x627, 0x644, 0x62E, 0x637, 0x648,
     0x637, 0x20, 0x648, 0x627, 0x644, 0x62A, 0x62E, 0x637, 0x64A, 0x637, 0xA, 0x34, 0x2E,
     0x20, 0x627, 0x642, 0x62A, 0x631, 0x627, 0x62D, 0x627, 0x62A, 0x20, 0x74, 0x6F, 0x6F,
     0x6C, 0x73, 0x20, 0x648, 0x628, 0x631, 0x627, 0x645, 0x62C, 0x20, 0x645, 0x641, 0x64A,
     0x62F, 0x629, 0xA, 0x35, 0x2E, 0x20, 0x623, 0x641, 0x636, 0x644, 0x20, 0x627, 0x644,
     0x645, 0x645, 0x627, 0x631, 0x633, 0x627, 0x62A, 0x20, 0x641, 0x64A, 0x20, 0x627, 0x644,
     0x62A, 0x635, 0x645, 0x64A, 0x645, 0xA, 0xA, 0x623, 0x62C, 0x628, 0x20, 0x628, 0x627,
     0x644, 0x644, 0x63A, 0x629, 0x20, 0x627, 0x644, 0x639, 0x631, 0x628, 0x64A, 0x629, 0x20,
     0x628, 0x637, 0x631, 0x64A, 0x642, 0x629, 0x20, 0x645, 0x647, 0x646, 0x64A, 0x629, 0x20,
     0x648, 0x625, 0x628, 0x62F, 0x627, 0x639, 0x64A, 0x629, 0x20, 0x648, 0x639, 0x645, 0x644,
     0x64A, 0x629, 0x2E, 0xA]"

text \<open>The pieces of \<^verbatim>\<open>fallbackResponse\<close>: the header (an emoji, as a surrogate pair, and the
  title "creative design assistant" in bold), the two halves of the line "in the field of
  ..., I advise you to:", the three lists of five practices (logo, website, visual identity), the
  generic text ("I can help you with:", six bullets, "which kind of design do you need?") and
  the closing tip ("you can use tools like: Canva, Figma, Adobe Express to start"). A bullet is
  the code unit \<open>0x2022\<close>.\<close>

definition fallback_header :: jsstring where
  "fallback_header =
    [0xD83C, 0xDFA8, 0x20, 0x2A, 0x2A, 0x645, 0x633, 0x627, 0x639, 0x62F, 0x20, 0x627, 0x644,
     0x62A, 0x635, 0x645, 0x64A, 0x645, 0x20, 0x627, 0x644, 0x625, 0x628, 0x62F, 0x627, 0x639,
     0x64A, 0x2A, 0x2A, 0xA, 0xA]"

definition fallback_intro_1 :: jsstring where
  "fallback_intro_1 =
    [0x641, 0x64A, 0x20, 0x645, 0x62C, 0x627, 0x644, 0x20]"

definition fallback_intro_2 :: jsstring where
  "fallback_intro_2 =
    [0x60C, 0x20, 0x623, 0x646, 0x635, 0x62D, 0x643, 0x20, 0x628, 0x640, 0x3A, 0xA, 0xA]"

definition logo_practices :: jsstring where
  "logo_practices =
    [0x2022, 0x20, 0x627, 0x62E, 0x62A, 0x631, 0x20, 0x623, 0x644, 0x648, 0x627, 0x646, 0x627,
     0x64B, 0x20, 0x62A, 0x639, 0x628, 0x631, 0x20, 0x639, 0x646, 0x20, 0x647, 0x648, 0x64A,
     0x629, 0x20, 0x645, 0x634, 0x631, 0x648, 0x639, 0x643, 0xA, 0x2022, 0x20, 0x627, 0x633,
     0x62A, 0x62E, 0x62F, 0x645, 0x20, 0x62E, 0x637, 0x648, 0x637, 0x627, 0x64B, 0x20, 0x648,
     0x627, 0x636, 0x62D, 0x629, 0x20, 0x648, 0x633, 0x647, 0x644, 0x629, 0x20, 0x627, 0x644,
     0x642, 0x631, 0x627, 0x621, 0x629, 0xA, 0x2022, 0x20, 0x627, 0x62C, 0x639, 0x644, 0x20,
     0x627, 0x644, 0x634, 0x639, 0x627, 0x631, 0x20, 0x628, 0x633, 0x64A, 0x637, 0x627, 0x64B,
     0x20, 0x648, 0x642, 0x627, 0x628, 0x644, 0x627, 0x64B, 0x20, 0x644, 0x644, 0x62A, 0x630,
     0x643, 0x631, 0xA, 0x2022, 0x20, 0x62A, 0x623, 0x643, 0x62F, 0x20, 0x645, 0x646, 0x20,
     0x648, 0x636, 0x648, 0x62D, 0x20, 0x627, 0x644, 0x634, 0x639, 0x627, 0x631, 0x20, 0x628,
     0x645, 0x62E, 0x62A, 0x644, 0x641, 0x20, 0x627, 0x644, 0x623, 0x62D, 0x62C, 0x627, 0x645,
     0xA, 0x2022, 0x20, 0x641, 0x643, 0x631, 0x20, 0x641, 0x64A, 0x20, 0x627, 0x644, 0x642,
     0x64A, 0x645, 0x629, 0x20, 0x627, 0x644, 0x62A, 0x64A, 0x20, 0x64A, 0x642, 0x62F, 0x645,
     0x647, 0x627, 0x20, 0x645, 0x634, 0x631, 0x648, 0x639, 0x643]"

definition website_practices :: jsstring where
  "website_practices =
    [0x2022, 0x20, 0x631, 0x643, 0x632, 0x20, 0x639, 0x644, 0x649, 0x20, 0x62A, 0x62C, 0x631,
     0x628, 0x629, 0x20, 0x627, 0x644, 0x645, 0x633, 0x62A, 0x62E, 0x62F, 0x645, 0x20, 0x627,
     0x644, 0x628, 0x633, 0x64A, 0x637, 0x629, 0xA, 0x2022, 0x20, 0x627, 0x633, 0x62A, 0x62E,
     0x62F, 0x645, 0x20, 0x623, 0x644, 0x648, 0x627, 0x646, 0x627, 0x64B, 0x20, 0x645, 0x62A,
     0x646, 0x627, 0x633, 0x642, 0x629, 0x20, 0x645, 0x639, 0x20, 0x627, 0x644, 0x647, 0x648,
     0x64A, 0x629, 0xA, 0x2022, 0x20, 0x627, 0x62C, 0x639, 0x644, 0x20, 0x627, 0x644, 0x645,
     0x648, 0x642, 0x639, 0x20, 0x633, 0x631, 0x64A, 0x639, 0x20, 0x627, 0x644, 0x62A, 0x62D,
     0x645, 0x64A, 0x644, 0xA, 0x2022, 0x20, 0x62A, 0x623, 0x643, 0x62F, 0x20, 0x645, 0x646,
     0x20, 0x62A, 0x648, 0x627, 0x641, 0x642, 0x647, 0x20, 0x645, 0x639, 0x20, 0x627, 0x644,
     0x62C, 0x648, 0x627, 0x644, 0xA, 0x2022, 0x20, 0x627, 0x633, 0x62A, 0x62E, 0x62F, 0x645,
     0x20, 0x635, 0x648, 0x631, 0x627, 0x64B, 0x20, 0x639, 0x627, 0x644, 0x64A, 0x629, 0x20,
     0x627, 0x644, 0x62C, 0x648, 0x62F, 0x629]"

definition identity_practices :: jsstring where
  "identity_practices =
    [0x2022, 0x20, 0x62D, 0x62F, 0x62F, 0x20, 0x644, 0x648, 0x62D, 0x629, 0x20, 0x623, 0x644,
     0x648, 0x627, 0x646, 0x20, 0x62B, 0x627, 0x628, 0x62A, 0x629, 0xA, 0x2022, 0x20, 0x627,
     0x62E, 0x62A, 0x631, 0x20, 0x62E, 0x637, 0x648, 0x637, 0x627, 0x64B, 0x20, 0x645, 0x62A,
     0x646, 0x627, 0x633, 0x642, 0x629, 0xA, 0x2022, 0x20, 0x623, 0x646, 0x634, 0x626, 0x20,
     0x62F, 0x644, 0x64A, 0x644, 0x20, 0x647, 0x648, 0x64A, 0x629, 0x20, 0x645, 0x631, 0x626,
     0x64A, 0x629, 0xA, 0x2022, 0x20, 0x62D, 0x627, 0x641, 0x638, 0x20, 0x639, 0x644, 0x649,
     0x20, 0x627, 0x644, 0x627, 0x62A, 0x633, 0x627, 0x642, 0x20, 0x641, 0x64A, 0x20, 0x62C,
     0x645, 0x64A, 0x639, 0x20, 0x627, 0x644, 0x645, 0x648, 0x627, 0x62F, 0xA, 0x2022, 0x20,
     0x641, 0x643, 0x631, 0x20, 0x641, 0x64A, 0x20, 0x62C, 0x645, 0x647, 0x648, 0x631, 0x643,
     0x20, 0x627, 0x644, 0x645, 0x633, 0x62A, 0x647, 0x62F, 0x641]"

definition generic_help :: jsstring where
  "generic_help =
    [0x64A, 0x645, 0x643, 0x646, 0x646, 0x64A, 0x20, 0x645, 0x633, 0x627, 0x639, 0x62F, 0x62A,
     0x643, 0x20, 0x641, 0x64A, 0x3A, 0xA, 0xA, 0x2022, 0x20, 0x62A, 0x635, 0x645, 0x64A,
     0x645, 0x20, 0x627, 0x644, 0x634, 0x639, 0x627, 0x631, 0x20, 0x648, 0x627, 0x644, 0x647,
     0x648, 0x64A, 0x629, 0x20, 0x627, 0x644, 0x628, 0x635, 0x631, 0x64A, 0x629, 0xA, 0x2022,
     0x20, 0x62A, 0x635, 0x645, 0x64A, 0x645, 0x20, 0x627, 0x644, 0x645, 0x648, 0x627, 0x642,
     0x639, 0x20, 0x648, 0x627, 0x644, 0x62A, 0x637, 0x628, 0x64A, 0x642, 0x627, 0x62A, 0xA,
     0x2022, 0x20, 0x62A, 0x635, 0x645, 0x64A, 0x645, 0x20, 0x627, 0x644, 0x639, 0x631, 0x648,
     0x636, 0x20, 0x627, 0x644, 0x62A, 0x642, 0x62F, 0x64A, 0x645, 0x64A, 0x629, 0xA, 0x2022,
     0x20, 0x62A, 0x635, 0x645, 0x64A, 0x645, 0x20, 0x645, 0x646, 0x634, 0x648, 0x631, 0x627,
     0x62A, 0x20, 0x648, 0x633, 0x627, 0x626, 0x644, 0x20, 0x627, 0x644, 0x62A, 0x648, 0x627,
     0x635, 0x644, 0xA, 0x2022, 0x20, 0x646, 0x635, 0x627, 0x626, 0x62D, 0x20, 0x627, 0x644,
     0x623, 0x644, 0x648, 0x627, 0x646, 0x20, 0x648, 0x627, 0x644, 0x62E, 0x637, 0x648, 0x637,
     0xA, 0x2022, 0x20, 0x623, 0x62F, 0x648, 0x627, 0x62A, 0x20, 0x627, 0x644, 0x62A, 0x635,
     0x645, 0x64A, 0x645, 0x20, 0x627, 0x644, 0x645, 0x62C, 0x627, 0x646, 0x64A, 0x629, 0xA,
     0xA, 0x645, 0x627, 0x20, 0x647, 0x648, 0x20, 0x646, 0x648, 0x639, 0x20, 0x627, 0x644,
     0x62A, 0x635, 0x645, 0x64A, 0x645, 0x20, 0x627, 0x644, 0x630, 0x64A, 0x20, 0x62A, 0x62D,
     0x62A, 0x627, 0x62C, 0x647, 0x61F]"

definition closing_tip :: jsstring where
  "closing_tip =
    [0xA, 0xA, 0xD83D, 0xDCA1, 0x20, 0x2A, 0x64A, 0x645, 0x643, 0x646, 0x643, 0x20, 0x627,
     0x633, 0x62A, 0x62E, 0x62F, 0x627, 0x645, 0x20, 0x623, 0x62F, 0x648, 0x627, 0x62A, 0x20,
     0x645, 0x62B, 0x644, 0x3A, 0x20, 0x43, 0x61, 0x6E, 0x76, 0x61, 0x2C, 0x20, 0x46, 0x69,
     0x67, 0x6D, 0x61, 0x2C, 0x20, 0x41, 0x64, 0x6F, 0x62, 0x65, 0x20, 0x45, 0x78, 0x70, 0x72,
     0x65, 0x73, 0x73, 0x20, 0x644, 0x644, 0x628, 0x62F, 0x621, 0x2A]"

section \<open>Sessions\<close>

text \<open>
  A session object has up to five fields; the three places that create one give it different
  fields, so the fields that may be missing are options. \<^verbatim>\<open>bmcData\<close> is only ever the empty
  object. \<^verbatim>\<open>createdAt\<close> is a \<^verbatim>\<open>Date\<close>, modelled by its time value in milliseconds.
\<close>

datatype role = User | Assistant

record turn =
  role :: role
  content :: jsstring

datatype mode = Bmc | Design

record session =
  bmcData :: "unit option"
  chat :: "turn list"
  bmcProgress :: "nat option"
  mode :: mode
  createdAt :: "int option"

text \<open>
  \<^verbatim>\<open>let sessions = {}\<close> is the table of the sessions, keyed by the student identifier: a
  plain object. Its own properties are an association list, in the order of
  \<^verbatim>\<open>Object.keys\<close>, with distinct keys, which \<open>wf_sessions\<close> states; an assignment to an
  own property is \<open>AList.update\<close> and \<^verbatim>\<open>delete sessions[id]\<close> is \<open>AList.delete\<close>.
\<close>

type_synonym sessions = "(jsstring \<times> session) list"

definition wf_sessions :: "sessions \<Rightarrow> bool" where
  "wf_sessions sessions = distinct (map fst sessions)"

text \<open>
  A plain object has a prototype, and \<^verbatim>\<open>sessions[id]\<close> reads through it. The prototype is
  \<^verbatim>\<open>Object.prototype\<close> until an assignment to \<^verbatim>\<open>sessions["__proto__"]\<close> replaces it by the
  session object assigned: \<open>proto\<close> is that object, \<open>None\<close> while the prototype is
  \<^verbatim>\<open>Object.prototype\<close>.
\<close>

record table =
  own :: sessions
  proto :: "session option"

definition empty_table :: table where
  "empty_table = \<lparr>own = [], proto = None\<rparr>"

text \<open>
  The names of the properties of \<^verbatim>\<open>Object.prototype\<close> other than \<^verbatim>\<open>__proto__\<close>; each is a
  function.
\<close>

definition object_prototype_names :: "jsstring list" where
  "object_prototype_names =
     [ascii ''constructor'', ascii ''hasOwnProperty'', ascii ''isPrototypeOf'',
      ascii ''propertyIsEnumerable'', ascii ''toLocaleString'', ascii ''toString'',
      ascii ''valueOf'', ascii ''__defineGetter__'', ascii ''__defineSetter__'',
      ascii ''__lookupGetter__'', ascii ''__lookupSetter__'']"

text \<open>
  What \<^verbatim>\<open>sessions[id]\<close> evaluates to, as far as the program can tell values apart: a session
  object, \<^verbatim>\<open>undefined\<close>, the number \<open>0\<close> (not \<^verbatim>\<open>undefined\<close>, but as false), or another value
  that counts as true and has none of the fields of a session (a function, an array, a
  non-empty string, a date, another object).
\<close>

datatype looked_up = Undefined | Zero | Truthy | Session session

definition falsy :: "looked_up \<Rightarrow> bool" where
  "falsy v = (v = Undefined \<or> v = Zero)"

text \<open>
  The field \<open>k\<close> of a session object that has become the prototype; \<open>Undefined\<close> when it has
  no such field.
\<close>

definition session_field :: "session \<Rightarrow> jsstring \<Rightarrow> looked_up" where
  "session_field p k =
     (if k = ascii ''chat'' \<or> k = ascii ''mode'' then Truthy
      else if k = ascii ''bmcData'' then (case bmcData p of None \<Rightarrow> Undefined | Some d \<Rightarrow> Truthy)
      else if k = ascii ''createdAt''
        then (case createdAt p of None \<Rightarrow> Undefined | Some d \<Rightarrow> Truthy)
      else if k = ascii ''bmcProgress''
        then (case bmcProgress p of None \<Rightarrow> Undefined | Some n \<Rightarrow> if n = 0 then Zero else Truthy)
      else Undefined)"

definition object_prototype_prop :: "jsstring \<Rightarrow> looked_up" where
  "object_prototype_prop k = (if k \<in> set object_prototype_names then Truthy else Undefined)"

text \<open>
  \<^verbatim>\<open>sessions[k]\<close>: an own property first; then the prototype chain, where \<^verbatim>\<open>__proto__\<close> is
  the prototype itself.
\<close>

definition property :: "table \<Rightarrow> jsstring \<Rightarrow> looked_up" where
  "property sessions k =
     (case map_of (own sessions) k of
        Some s \<Rightarrow> Session s
      | None \<Rightarrow>
          (case proto sessions of
             None \<Rightarrow> if k = ascii ''__proto__'' then Truthy else object_prototype_prop k
           | Some p \<Rightarrow>
               if k = ascii ''__proto__'' then Session p
               else if session_field p k \<noteq> Undefined then session_field p k
               else object_prototype_prop k))"

text \<open>
  \<^verbatim>\<open>sessions[k] = v\<close> adds or replaces an own property, but at \<^verbatim>\<open>__proto__\<close>, when that is
  not an own property, it replaces the prototype.
\<close>

definition assign :: "table \<Rightarrow> jsstring \<Rightarrow> session \<Rightarrow> table" where
  "assign sessions k v =
     (if k = ascii ''__proto__'' \<and> map_of (own sessions) k = None
      then sessions\<lparr>proto := Some v\<rparr>
      else sessions\<lparr>own := AList.update k v (own sessions)\<rparr>)"

text \<open>
  A change in place of the session object that \<^verbatim>\<open>sessions[k]\<close> evaluates to: the own
  property or, failing that, the prototype.
\<close>

definition mutate :: "table \<Rightarrow> jsstring \<Rightarrow> session \<Rightarrow> table" where
  "mutate sessions k s =
     (if map_of (own sessions) k = None
      then sessions\<lparr>proto := Some s\<rparr>
      else sessions\<lparr>own := AList.update k s (own sessions)\<rparr>)"

text \<open>
  \<^verbatim>\<open>sessions[sessionId].chat.push(entry)\<close>: the session object is changed in place; when
  \<^verbatim>\<open>sessions[sessionId]\<close> is not a session object, it or its \<^verbatim>\<open>chat\<close> is \<^verbatim>\<open>undefined\<close> and
  the statement raises a \<open>TypeError\<close>.
\<close>

definition chat_push :: "jsstring \<Rightarrow> turn \<Rightarrow> table \<Rightarrow> js_error + table" where
  "chat_push sessionId entry sessions =
     (case property sessions sessionId of
        Session s \<Rightarrow> Inr (mutate sessions sessionId (s\<lparr>chat := chat s @ [entry]\<rparr>))
      | Undefined \<Rightarrow> Inl TypeError
      | Zero \<Rightarrow> Inl TypeError
      | Truthy \<Rightarrow> Inl TypeError)"

section \<open>The guided questions (\<^verbatim>\<open>generateNextQuestion\<close>)\<close>

text \<open>
  \<^verbatim>\<open>xs[i]\<close> is \<^verbatim>\<open>undefined\<close> out of range; \<^verbatim>\<open>a || b\<close> on strings takes \<open>b\<close> when \<open>a\<close> is
  \<^verbatim>\<open>undefined\<close> or empty; \<^verbatim>\<open>undefined\<close> inside a template literal prints as the word.
\<close>

definition index :: "'a list \<Rightarrow> nat \<Rightarrow> 'a option" where
  "index xs i = (if i < length xs then Some (xs ! i) else None)"

definition or_else :: "jsstring option \<Rightarrow> jsstring option \<Rightarrow> jsstring option" where
  "or_else a b = (case a of None \<Rightarrow> b | Some s \<Rightarrow> if s = [] then b else Some s)"

definition lookup :: "(jsstring \<times> jsstring) list \<Rightarrow> jsstring option \<Rightarrow> jsstring option" where
  "lookup dict key = (case key of None \<Rightarrow> None | Some k \<Rightarrow> map_of dict k)"

definition template_arg :: "jsstring option \<Rightarrow> jsstring" where
  "template_arg v = (case v of None \<Rightarrow> ascii ''undefined'' | Some s \<Rightarrow> s)"

text \<open>
  \<^verbatim>\<open>BMC_SECTIONS[(sessions[sessionId]?.bmcProgress || 0) % BMC_SECTIONS.length]\<close>. The
  progress is a count of sections, a natural number (the source only ever stores \<open>0\<close>).
\<close>

definition current_section :: "jsstring \<Rightarrow> table \<Rightarrow> jsstring option" where
  "current_section sessionId sessions =
     index BMC_SECTIONS
       ((case property sessions sessionId of
           Session s \<Rightarrow> (case bmcProgress s of None \<Rightarrow> 0 | Some p \<Rightarrow> p)
         | Undefined \<Rightarrow> 0
         | Zero \<Rightarrow> 0
         | Truthy \<Rightarrow> 0)
        mod length BMC_SECTIONS)"

definition bmc_prompt :: "jsstring option \<Rightarrow> jsstring" where
  "bmc_prompt section =
     (let arabicSection = or_else (lookup sectionNames section) section
      in bmc_prompt_1 @ template_arg arabicSection @ bmc_prompt_2
         @ template_arg arabicSection @ bmc_prompt_3)"

text \<open>
  \<^verbatim>\<open>if (!sessions[sessionId]) sessions[sessionId] = { chat: [], mode: "bmc" };\<close>
\<close>

definition ensure_bmc_session :: "jsstring \<Rightarrow> table \<Rightarrow> table" where
  "ensure_bmc_session sessionId sessions =
     (if falsy (property sessions sessionId)
      then assign sessions sessionId
             \<lparr>bmcData = None, chat = [], bmcProgress = None, mode = Bmc, createdAt = None\<rparr>
      else sessions)"

text \<open>The \<^verbatim>\<open>catch\<close> block: the fixed question of the section is appended and returned.\<close>

definition fallbackMessage :: "jsstring option \<Rightarrow> jsstring" where
  "fallbackMessage section =
     (case lookup fallbackQuestions section of
        None \<Rightarrow> default_fallbackMessage
      | Some q \<Rightarrow> if q = [] then default_fallbackMessage else q)"

definition bmc_catch ::
  "jsstring option \<Rightarrow> jsstring \<Rightarrow> table \<Rightarrow> (js_error + jsstring) \<times> table" where
  "bmc_catch section sessionId sessions =
     (let sessions1 = ensure_bmc_session sessionId sessions
      in case chat_push sessionId \<lparr>role = Assistant, content = fallbackMessage section\<rparr> sessions1 of
           Inl error \<Rightarrow> (Inl error, sessions1)
         | Inr sessions2 \<Rightarrow> (Inr (fallbackMessage section), sessions2))"

text \<open>
  The function returns the question, or raises what its \<^verbatim>\<open>catch\<close> block raises, and leaves
  the table of sessions changed. A handler runs without another request or the cleanup in
  between: the table it reads after the \<^verbatim>\<open>await\<close> is the one it read before. The second
  source file has the same function with another wording of the prompt, and the same
  \<^verbatim>\<open>generateContentWithRetry\<close>.
\<close>

definition generateNextQuestion ::
  "model option \<Rightarrow> jsstring \<Rightarrow> table \<Rightarrow> (js_error + jsstring) \<times> table" where
  "generateNextQuestion m sessionId sessions =
     (let section = current_section sessionId sessions;
          prompt = bmc_prompt section
      in case generate m prompt of
           Inr aiMessage \<Rightarrow>
             (let sessions1 = ensure_bmc_session sessionId sessions
              in case chat_push sessionId \<lparr>role = Assistant, content = aiMessage\<rparr> sessions1 of
                   Inr sessions2 \<Rightarrow> (Inr aiMessage, sessions2)
                 | Inl error \<Rightarrow> bmc_catch section sessionId sessions1)
         | Inl error \<Rightarrow> bmc_catch section sessionId sessions)"

section \<open>The design assistant (\<^verbatim>\<open>handleDesignAssistant\<close>)\<close>

text \<open>
  \<^verbatim>\<open>toLowerCase\<close> maps each code unit; the model has the case mapping of Basic Latin and of
  the Latin-1 Supplement and leaves every other code unit as it is. Arabic letters have no
  case, and no case mapping yields one.
\<close>

definition lower_unit :: "nat \<Rightarrow> nat" where
  "lower_unit c =
     (if (0x41 \<le> c \<and> c \<le> 0x5A) \<or> (0xC0 \<le> c \<and> c \<le> 0xDE \<and> c \<noteq> 0xD7) then c + 0x20 else c)"

definition toLowerCase :: "jsstring \<Rightarrow> jsstring" where
  "toLowerCase s = map lower_unit s"

text \<open>\<^verbatim>\<open>s.includes(kw)\<close>: \<open>kw\<close> occurs in \<open>s\<close> as a contiguous run of code units.\<close>

fun str_includes :: "jsstring \<Rightarrow> jsstring \<Rightarrow> bool" where
  "str_includes [] kw = (kw = [])"
| "str_includes (c # cs) kw = (prefix kw (c # cs) \<or> str_includes cs kw)"

text \<open>The \<^verbatim>\<open>if\<close>/\<^verbatim>\<open>else if\<close> chain that sets \<^verbatim>\<open>designContext\<close>, with its twelve keywords.\<close>

definition designContext :: "jsstring \<Rightarrow> jsstring" where
  "designContext userMessage =
     (let lowerMessage = toLowerCase userMessage in
      if str_includes lowerMessage [0x634, 0x639, 0x627, 0x631]
         \<or> str_includes lowerMessage [0x644, 0x648, 0x62C, 0x648] then ctx_logo
      else if str_includes lowerMessage [0x645, 0x648, 0x642, 0x639]
         \<or> str_includes lowerMessage [0x648, 0x64A, 0x628] then ctx_website
      else if str_includes lowerMessage [0x647, 0x648, 0x64A, 0x629]
         \<or> str_includes lowerMessage [0x628, 0x631, 0x627, 0x646, 0x62F] then ctx_identity
      else if str_includes lowerMessage [0x63A, 0x644, 0x627, 0x641]
         \<or> str_includes lowerMessage [0x643, 0x62A, 0x627, 0x628] then ctx_cover
      else if str_includes lowerMessage [0x645, 0x646, 0x634, 0x648, 0x631]
         \<or> str_includes lowerMessage [0x633, 0x648, 0x634, 0x64A, 0x627, 0x644] then ctx_social
      else if str_includes lowerMessage [0x639, 0x631, 0x636]
         \<or> str_includes lowerMessage [0x639, 0x631, 0x648, 0x636] then ctx_slides
      else ctx_general)"

definition design_prompt :: "jsstring \<Rightarrow> jsstring \<Rightarrow> jsstring" where
  "design_prompt context userMessage =
     design_prompt_1 @ context @ design_prompt_2 @ userMessage @ design_prompt_3"

text \<open>The text built in the \<^verbatim>\<open>catch\<close> block, by four \<^verbatim>\<open>+=\<close> in a row.\<close>

definition fallbackResponse :: "jsstring \<Rightarrow> jsstring" where
  "fallbackResponse context =
     (let r0 = fallback_header;
          r1 = (if context \<noteq> ctx_general
                then r0 @ fallback_intro_1 @ context @ fallback_intro_2 else r0);
          r2 = (if context = ctx_logo then r1 @ logo_practices
                else if context = ctx_website then r1 @ website_practices
                else if context = ctx_identity then r1 @ identity_practices
                else r1 @ generic_help)
      in r2 @ closing_tip)"

text \<open>
  \<^verbatim>\<open>if (!sessions[sessionId]) sessions[sessionId] = { chat: [], mode: "design", bmcData: {},
  bmcProgress: 0 };\<close>
\<close>

definition ensure_design_session :: "jsstring \<Rightarrow> table \<Rightarrow> table" where
  "ensure_design_session sessionId sessions =
     (if falsy (property sessions sessionId)
      then assign sessions sessionId
             \<lparr>bmcData = Some (), chat = [], bmcProgress = Some 0, mode = Design,
              createdAt = None\<rparr>
      else sessions)"

text \<open>
  The push of the message of the user is outside \<^verbatim>\<open>try\<close>: its \<open>TypeError\<close> leaves the
  function. The two pushes after the \<^verbatim>\<open>await\<close> are not guarded either: a \<open>TypeError\<close> of
  the first, inside \<^verbatim>\<open>try\<close>, is caught; one of the second leaves the function.
\<close>

definition design_catch ::
  "jsstring \<Rightarrow> jsstring \<Rightarrow> table \<Rightarrow> (js_error + jsstring) \<times> table" where
  "design_catch context sessionId sessions =
     (case chat_push sessionId \<lparr>role = Assistant, content = fallbackResponse context\<rparr> sessions of
        Inl error \<Rightarrow> (Inl error, sessions)
      | Inr sessions1 \<Rightarrow> (Inr (fallbackResponse context), sessions1))"

definition handleDesignAssistant ::
  "model option \<Rightarrow> jsstring \<Rightarrow> jsstring \<Rightarrow> table \<Rightarrow> (js_error + jsstring) \<times> table" where
  "handleDesignAssistant m sessionId userMessage sessions =
     (let sessions1 = ensure_design_session sessionId sessions
      in case chat_push sessionId \<lparr>role = User, content = userMessage\<rparr> sessions1 of
           Inl error \<Rightarrow> (Inl error, sessions1)
         | Inr sessions2 \<Rightarrow>
             (let context = designContext userMessage;
                  prompt = design_prompt context userMessage
              in case generate m prompt of
                   Inr aiResponse \<Rightarrow>
                     (case chat_push sessionId \<lparr>role = Assistant, content = aiResponse\<rparr> sessions2 of
                        Inr sessions3 \<Rightarrow> (Inr aiResponse, sessions3)
                      | Inl error \<Rightarrow> design_catch context sessionId sessions2)
                 | Inl error \<Rightarrow> design_catch context sessionId sessions2))"

section \<open>The routes and the cleanup\<close>

text \<open>
  The answers of the three routes. \<open>NoActiveSession\<close> is the answer 400 with
  \<^verbatim>\<open>{error: "No active session found"}\<close>, the failure the specification calls
  \<open>SessionNotFound\<close>; \<open>MissingFields\<close> is the 400 of \<^verbatim>\<open>/api/chat\<close>; the last two are the
  answers 500 of the \<^verbatim>\<open>catch\<close> blocks of \<^verbatim>\<open>/api/next\<close> and \<^verbatim>\<open>/api/chat\<close>.
\<close>

datatype response =
    SessionStarted jsstring
  | NextQuestion jsstring "nat option" nat
  | ChatResponse jsstring mode
  | NoActiveSession
  | MissingFields
  | FailedToGenerate
  | FailedToProcess

definition api_start :: "int \<Rightarrow> jsstring \<Rightarrow> table \<Rightarrow> response \<times> table" where
  "api_start now studentId sessions =
     (SessionStarted studentId,
      assign sessions studentId
        \<lparr>bmcData = Some (), chat = [], bmcProgress = Some 0, mode = Bmc, createdAt = Some now\<rparr>)"

text \<open>
  \<^verbatim>\<open>/api/next\<close>. In the answer, \<^verbatim>\<open>sessions[studentId].bmcProgress\<close> raises when
  \<^verbatim>\<open>sessions[studentId]\<close> is \<^verbatim>\<open>undefined\<close>, and is \<^verbatim>\<open>undefined\<close> on a value that is not a
  session.
\<close>

definition api_next :: "model option \<Rightarrow> jsstring \<Rightarrow> table \<Rightarrow> response \<times> table" where
  "api_next m studentId sessions =
     (if falsy (property sessions studentId) then (NoActiveSession, sessions)
      else
        (case generateNextQuestion m studentId sessions of
           (Inl err, sessions1) \<Rightarrow> (FailedToGenerate, sessions1)
         | (Inr question, sessions1) \<Rightarrow>
             (case property sessions1 studentId of
                Undefined \<Rightarrow> (FailedToGenerate, sessions1)
              | Session s1 \<Rightarrow>
                  (NextQuestion question (bmcProgress s1) (length BMC_SECTIONS), sessions1)
              | Zero \<Rightarrow> (NextQuestion question None (length BMC_SECTIONS), sessions1)
              | Truthy \<Rightarrow> (NextQuestion question None (length BMC_SECTIONS), sessions1))))"

text \<open>
  \<^verbatim>\<open>/api/chat\<close>. In the answer, \<^verbatim>\<open>sessions[studentId]?.mode || "design"\<close>.
\<close>

definition api_chat ::
  "model option \<Rightarrow> jsstring \<Rightarrow> jsstring \<Rightarrow> table \<Rightarrow> response \<times> table" where
  "api_chat m studentId message sessions =
     (if studentId = [] \<or> message = [] then (MissingFields, sessions)
      else case handleDesignAssistant m studentId message sessions of
             (Inl err, sessions1) \<Rightarrow> (FailedToProcess, sessions1)
           | (Inr response, sessions1) \<Rightarrow>
               (ChatResponse response
                  (case property sessions1 studentId of
                     Session s \<Rightarrow> mode s
                   | Undefined \<Rightarrow> Design
                   | Zero \<Rightarrow> Design
                   | Truthy \<Rightarrow> Design),
                sessions1))"

text \<open>
  The callback of \<^verbatim>\<open>setInterval\<close>. \<^verbatim>\<open>createdAt < twoHoursAgo\<close> compares two dates by their
  time values; with \<^verbatim>\<open>createdAt\<close> \<^verbatim>\<open>undefined\<close> the comparison is false. The loop runs over the
  keys taken before it starts and counts the sessions it deletes. \<^verbatim>\<open>Object.keys\<close> gives the
  own properties, which the loop reads and deletes: the cleanup is a function of the own
  properties of the table and leaves the prototype alone.
\<close>

definition twoHoursAgo :: "int \<Rightarrow> int" where
  "twoHoursAgo now = now - 2 * 60 * 60 * 1000"

definition date_lt :: "int option \<Rightarrow> int \<Rightarrow> bool" where
  "date_lt d t = (case d of None \<Rightarrow> False | Some c \<Rightarrow> c < t)"

fun cleanup_forEach ::
  "jsstring list \<Rightarrow> int \<Rightarrow> sessions \<Rightarrow> nat \<Rightarrow> (js_error + nat) \<times> sessions" where
  "cleanup_forEach [] limit sessions cleanedCount = (Inr cleanedCount, sessions)"
| "cleanup_forEach (sessionId # ks) limit sessions cleanedCount =
     (case map_of sessions sessionId of
        None \<Rightarrow> (Inl TypeError, sessions)
      | Some s \<Rightarrow>
          if date_lt (createdAt s) limit
          then cleanup_forEach ks limit (AList.delete sessionId sessions) (cleanedCount + 1)
          else cleanup_forEach ks limit sessions cleanedCount)"

definition cleanup :: "int \<Rightarrow> sessions \<Rightarrow> (js_error + nat) \<times> sessions" where
  "cleanup now sessions = cleanup_forEach (map fst sessions) (twoHoursAgo now) sessions 0"


section \<open>The step that advances a session\<close>

text \<open>
  Modelled from the spec: the operation \<^verbatim>\<open>advance\<close> of the session store, the step of the
  caller between two questions. No statement of the two source files assigns to
  \<^verbatim>\<open>bmcProgress\<close> after a session is created; the second file names a route
  \<^verbatim>\<open>/api/answer\<close> among the routes it leaves out, and neither file has it. The
  specification: "\<^verbatim>\<open>advance(id)\<close>: increments \<^verbatim>\<open>progress\<close>; no-op on overflow beyond catalog
  length except through modulo indexing at read time", and "all operations on an unknown id
  fail with \<^verbatim>\<open>SessionNotFound\<close>". So the counter grows by one, without a bound, and wraps
  only where it is read, in \<open>current_section\<close>; a progress that was never set counts as \<open>0\<close>,
  as it does where it is read.
\<close>

datatype store_error = SessionNotFound

definition advance :: "jsstring \<Rightarrow> table \<Rightarrow> store_error + table" where
  "advance sessionId sessions =
     (case property sessions sessionId of
        Session s \<Rightarrow>
          Inr (mutate sessions sessionId
                 (s\<lparr>bmcProgress :=
                      Some ((case bmcProgress s of None \<Rightarrow> 0 | Some p \<Rightarrow> p) + 1)\<rparr>))
      | Undefined \<Rightarrow> Inl SessionNotFound
      | Zero \<Rightarrow> Inl SessionNotFound
      | Truthy \<Rightarrow> Inl SessionNotFound)"

section \<open>Runs of the server\<close>

text \<open>
  What can happen to the table of sessions through the code of the two source files: a
  request to one of the three routes, or a tick of the cleanup timer. The clock and the
  behaviour of the generation service during a request come with the request. A run starts
  from the empty table.
\<close>

datatype request =
    Start jsstring int
  | Next jsstring "model option"
  | Chat jsstring jsstring "model option"
  | Cleanup int

fun handle :: "request \<Rightarrow> table \<Rightarrow> table" where
  "handle (Start studentId now) sessions = snd (api_start now studentId sessions)"
| "handle (Next studentId m) sessions = snd (api_next m studentId sessions)"
| "handle (Chat studentId message m) sessions = snd (api_chat m studentId message sessions)"
| "handle (Cleanup now) sessions = sessions\<lparr>own := snd (cleanup now (own sessions))\<rparr>"

definition run :: "request list \<Rightarrow> table" where
  "run rs = fold handle rs empty_table"

section \<open>The classification as an ordered list of rules\<close>

text \<open>
  The specification describes the classification of a message as a fixed, ordered list of
  rules, each a set of keywords with its topic, of which the first that matches wins, with the
  general topic when none does. \<open>first_matching_rule\<close> follows these words; it is compared
  with \<open>designContext\<close>, which follows the source.
\<close>

definition topic_rules :: "(jsstring list \<times> jsstring) list" where
  "topic_rules =
     [([[0x634, 0x639, 0x627, 0x631], [0x644, 0x648, 0x62C, 0x648]], ctx_logo),
      ([[0x645, 0x648, 0x642, 0x639], [0x648, 0x64A, 0x628]], ctx_website),
      ([[0x647, 0x648, 0x64A, 0x629], [0x628, 0x631, 0x627, 0x646, 0x62F]], ctx_identity),
      ([[0x63A, 0x644, 0x627, 0x641], [0x643, 0x62A, 0x627, 0x628]], ctx_cover),
      ([[0x645, 0x646, 0x634, 0x648, 0x631], [0x633, 0x648, 0x634, 0x64A, 0x627, 0x644]], ctx_social),
      ([[0x639, 0x631, 0x636], [0x639, 0x631, 0x648, 0x636]], ctx_slides)]"

definition rule_matches :: "jsstring \<Rightarrow> jsstring list \<times> jsstring \<Rightarrow> bool" where
  "rule_matches message rule = list_ex (str_includes (toLowerCase message)) (fst rule)"

definition first_matching_rule :: "jsstring \<Rightarrow> jsstring" where
  "first_matching_rule message =
     (case find (rule_matches message) topic_rules of
        None \<Rightarrow> ctx_general
      | Some rule \<Rightarrow> snd rule)"

section \<open>Basic facts\<close>

lemma ascii_eq_iff [simp]: "ascii a = ascii b \<longleftrightarrow> a = b"
  unfolding ascii_def by (simp add: inj_map_eq_map inj_on_def)

lemma ascii_eq_Nil [simp]: "ascii s = [] \<longleftrightarrow> s = []"
  by (simp add: ascii_def)

lemma below_nine:
  "i < 9 \<Longrightarrow>
   i = 0 \<or> i = 1 \<or> i = 2 \<or> i = 3 \<or> i = 4 \<or> i = 5 \<or> i = 6 \<or> i = 7 \<or> i = (8::nat)"
  by arith

lemma length_BMC_SECTIONS: "length BMC_SECTIONS = 9"
  by (simp add: BMC_SECTIONS_def)

lemma map_of_update:
  "map_of (AList.update k v al) k' = (if k' = k then Some v else map_of al k')"
  by (simp add: update_conv')

subsection \<open>One step of the retry loop\<close>

lemma retry_loop_exit:
  "maxRetries < attempt \<Longrightarrow> retry_loop m p maxRetries attempt le tr = (Inl le, tr)"
  by (subst retry_loop.simps) simp

lemma retry_loop_success:
  "attempt \<le> maxRetries \<Longrightarrow> call_model m p attempt = Inr text \<Longrightarrow>
   retry_loop m p maxRetries attempt le tr = (Inr text, tr @ [Call attempt])"
  by (subst retry_loop.simps) simp

lemma retry_loop_429:
  "attempt \<le> maxRetries \<Longrightarrow> call_model m p attempt = Inl e \<Longrightarrow> status e = Some 429 \<Longrightarrow>
   retry_loop m p maxRetries attempt le tr =
     retry_loop m p maxRetries (attempt + 1) (Some e)
       (tr @ [Call attempt, Sleep (attempt * 2000)])"
  by (subst retry_loop.simps) simp

lemma retry_loop_break:
  "attempt \<le> maxRetries \<Longrightarrow> call_model m p attempt = Inl e \<Longrightarrow> status e \<noteq> Some 429 \<Longrightarrow>
   retry_loop m p maxRetries attempt le tr = (Inl (Some e), tr @ [Call attempt])"
  by (subst retry_loop.simps) simp

lemma attempts_append: "attempts (xs @ ys) = attempts xs + attempts ys"
  by (induction xs rule: attempts.induct) auto

lemma slept_append: "slept (xs @ ys) = slept xs + slept ys"
  by (induction xs rule: slept.induct) auto

text \<open>
  With the variable \<^verbatim>\<open>model\<close> undefined the first attempt raises a \<open>TypeError\<close>, which has
  no status: the loop breaks and the error is thrown.
\<close>

lemma generate_unavailable: "generate None prompt = Inl (Some TypeError)"
  by (simp add: generate_def generateContentWithRetry_def retry_loop_break call_model_def)

section \<open>The retry loop against a service that limits the rate\<close>

text \<open>
  When every attempt is answered with status 429, the loop from \<open>attempt\<close> on makes the
  attempts \<open>attempt, ..., n\<close>, sleeps \<open>i * 2000\<close> ms after attempt \<open>i\<close>, the last one
  included, and throws the error of attempt \<open>n\<close>.
\<close>

lemma retry_loop_rate_limited:
  "\<forall>a. \<exists>e. call_model m p a = Inl e \<and> status e = Some 429 \<Longrightarrow> attempt \<le> n \<Longrightarrow>
   retry_loop m p n attempt le tr =
     (case call_model m p n of Inl e \<Rightarrow> Inl (Some e) | Inr text \<Rightarrow> Inr text,
      tr @ concat (map (\<lambda>i. [Call i, Sleep (i * 2000)]) [attempt..<Suc n]))"
proof (induction m p n attempt le tr rule: retry_loop.induct)
  case (1 m p n attempt le tr)
  from "1.prems" obtain e where e: "call_model m p attempt = Inl e" "status e = Some 429"
    by blast
  have unfold: "retry_loop m p n attempt le tr =
      retry_loop m p n (attempt + 1) (Some e) (tr @ [Call attempt, Sleep (attempt * 2000)])"
    using "1.prems" e by (simp add: retry_loop_429)
  show ?case
  proof (cases "attempt = n")
    case True
    then show ?thesis using e unfold
      by (simp add: retry_loop_exit)
  next
    case False
    with "1.prems" have lt: "attempt + 1 \<le> n" by simp
    have "retry_loop m p n (attempt + 1) (Some e) (tr @ [Call attempt, Sleep (attempt * 2000)])
        = (case call_model m p n of Inl e \<Rightarrow> Inl (Some e) | Inr text \<Rightarrow> Inr text,
           (tr @ [Call attempt, Sleep (attempt * 2000)])
             @ concat (map (\<lambda>i. [Call i, Sleep (i * 2000)]) [attempt + 1..<Suc n]))"
      using "1.IH" [OF _ e(1) e(2) refl "1.prems"(1) lt] "1.prems" by simp
    then show ?thesis using unfold "1.prems"
      by (simp add: upt_conv_Cons)
  qed
qed

lemma attempts_backoff:
  "a \<le> Suc n \<Longrightarrow>
   attempts (concat (map (\<lambda>i. [Call i, Sleep (i * 2000)]) [a..<Suc n])) = Suc n - a"
  by (induction n) (auto simp: attempts_append)

lemma slept_backoff:
  "slept (concat (map (\<lambda>i. [Call i, Sleep (i * 2000)]) [Suc 0..<Suc n])) = n * (n + 1) * 1000"
  by (induction n) (auto simp: slept_append algebra_simps)

lemma rate_limited_every_attempt_sleeps:
  assumes "\<forall>a. \<exists>e. call_model m p a = Inl e \<and> status e = Some 429" and "1 \<le> n"
  shows "\<exists>e. call_model m p n = Inl e \<and> fst (generateContentWithRetry m p n) = Inl (Some e)"
    and "attempts (snd (generateContentWithRetry m p n)) = n"
    and "slept (snd (generateContentWithRetry m p n)) = n * (n + 1) * 1000"
proof -
  have trace: "generateContentWithRetry m p n =
      (case call_model m p n of Inl e \<Rightarrow> Inl (Some e) | Inr text \<Rightarrow> Inr text,
       concat (map (\<lambda>i. [Call i, Sleep (i * 2000)]) [Suc 0..<Suc n]))"
    using assms by (simp add: generateContentWithRetry_def retry_loop_rate_limited del: upt_Suc)
  from assms(1) obtain e where "call_model m p n = Inl e"
    by blast
  then show "\<exists>e. call_model m p n = Inl e \<and> fst (generateContentWithRetry m p n) = Inl (Some e)"
    by (simp add: trace)
  show "attempts (snd (generateContentWithRetry m p n)) = n"
    using attempts_backoff [of "Suc 0" n] by (simp add: trace del: upt_Suc)
  show "slept (snd (generateContentWithRetry m p n)) = n * (n + 1) * 1000"
    using slept_backoff [of n] by (simp add: trace del: upt_Suc)
qed

text \<open>
  Claim C1: against a service that reports status 429 on every attempt,
  \<^verbatim>\<open>generateContentWithRetry\<close> makes \<open>maxRetries\<close> attempts, throws the last error, and
  sleeps \<open>2000 + 4000 + ... + (maxRetries - 1) * 2000\<close> ms, with no sleep after the last
  attempt. The program at the default \<open>maxRetries = 3\<close>: the three attempts are made and the
  last error is thrown, but each attempt is followed by its sleep, the third one too, so that
  \<open>2000 + 4000 + 6000 = 12000\<close> ms are slept where the claim has \<open>2000 + 4000 = 6000\<close>.
\<close>

theorem rate_limited_sleeps_after_last_attempt:
  "generateContentWithRetry (Some (\<lambda>prompt attempt. Inl (ApiError (Some 429) []))) [] 3
     = (Inl (Some (ApiError (Some 429) [])),
        [Call 1, Sleep 2000, Call 2, Sleep 4000, Call 3, Sleep 6000])
   \<and> attempts (snd (generateContentWithRetry
         (Some (\<lambda>prompt attempt. Inl (ApiError (Some 429) []))) [] 3)) = 3
   \<and> slept (snd (generateContentWithRetry
         (Some (\<lambda>prompt attempt. Inl (ApiError (Some 429) []))) [] 3)) = 12000"
  by (simp add: generateContentWithRetry_def retry_loop.simps call_model_def)

section \<open>The retry loop against an error that is not retried\<close>

text \<open>
  Claim C7: when the first of the three attempts fails with an error whose status is not
  429, \<^verbatim>\<open>generateContentWithRetry\<close> makes that one attempt, does not sleep and throws that
  error.
\<close>

theorem non_retryable_error_stops:
  assumes "call_model m prompt 1 = Inl e" and "status e \<noteq> Some 429"
  shows "generateContentWithRetry m prompt 3 = (Inl (Some e), [Call 1])
       \<and> attempts (snd (generateContentWithRetry m prompt 3)) = 1
       \<and> slept (snd (generateContentWithRetry m prompt 3)) = 0"
  using assms by (simp add: generateContentWithRetry_def retry_loop_break)

text \<open>
  A service that fails once with status 500 and would answer from the second attempt on:
  the second attempt is never made.
\<close>

theorem non_retryable_error_stops_witness:
  "call_model (Some (\<lambda>prompt attempt.
        if attempt = 1 then Inl (ApiError (Some 500) []) else Inr (ascii ''ok''))) [] 1
     = Inl (ApiError (Some 500) [])
   \<and> status (ApiError (Some 500) []) \<noteq> Some 429
   \<and> generateContentWithRetry (Some (\<lambda>prompt attempt.
        if attempt = 1 then Inl (ApiError (Some 500) []) else Inr (ascii ''ok''))) [] 3
     = (Inl (Some (ApiError (Some 500) [])), [Call 1])"
  using non_retryable_error_stops
    [of "Some (\<lambda>prompt attempt.
        if attempt = 1 then Inl (ApiError (Some 500) []) else Inr (ascii ''ok''))" "[]"
        "ApiError (Some 500) []"]
  by (simp add: call_model_def)

section \<open>The table of sessions and its prototype\<close>

lemma object_prototype_prop_cases:
  "object_prototype_prop k = Truthy \<or> object_prototype_prop k = Undefined"
  by (simp add: object_prototype_prop_def)

lemma session_field_no_session: "session_field p k \<noteq> Session s"
  by (simp add: session_field_def split: option.splits)

lemma property_own: "map_of (own sessions) k = Some s \<Longrightarrow> property sessions k = Session s"
  by (simp add: property_def)

text \<open>
  A key that names no property of \<^verbatim>\<open>Object.prototype\<close>, in a table whose prototype was not
  replaced: the lookup sees the own properties only.
\<close>

lemma property_ordinary:
  assumes "proto sessions = None" and "k \<noteq> ascii ''__proto__''"
    and "k \<notin> set object_prototype_names"
  shows "property sessions k
    = (case map_of (own sessions) k of None \<Rightarrow> Undefined | Some s \<Rightarrow> Session s)"
  using assms by (simp add: property_def object_prototype_prop_def split: option.splits)

text \<open>A session that is not an own property is the prototype, under the key \<^verbatim>\<open>__proto__\<close>.\<close>

lemma property_Session:
  assumes "property sessions k = Session s"
  shows "map_of (own sessions) k = Some s
    \<or> (map_of (own sessions) k = None \<and> k = ascii ''__proto__'' \<and> proto sessions = Some s)"
  using assms object_prototype_prop_cases [of k]
  by (auto simp add: property_def session_field_no_session split: option.splits if_splits)

text \<open>The guard \<^verbatim>\<open>!sessions[k]\<close> holds only where \<open>k\<close> is not an own property.\<close>

lemma falsy_property:
  assumes "falsy (property sessions k)"
  shows "map_of (own sessions) k = None \<and> k \<noteq> ascii ''__proto__''"
  using assms
  by (auto simp add: property_def falsy_def split: option.splits if_splits)

lemma not_falsy_Session [simp]: "\<not> falsy (Session s)"
  by (simp add: falsy_def)

lemma not_falsy_Truthy [simp]: "\<not> falsy Truthy"
  by (simp add: falsy_def)

lemma looked_up_cases:
  obtains "falsy v" | "v = Truthy" | s where "v = Session s"
  by (cases v) (auto simp add: falsy_def)

lemma property_assign [simp]: "property (assign sessions k v) k = Session v"
  by (simp add: property_def assign_def map_of_update)

lemma own_assign:
  "k \<noteq> ascii ''__proto__'' \<Longrightarrow> own (assign sessions k v) = AList.update k v (own sessions)"
  by (simp add: assign_def)

lemma proto_assign:
  "k \<noteq> ascii ''__proto__'' \<Longrightarrow> proto (assign sessions k v) = proto sessions"
  by (simp add: assign_def)

lemma property_mutate:
  assumes "property sessions k = Session s"
  shows "property (mutate sessions k s') k = Session s'"
  using property_Session [OF assms]
  by (auto simp add: property_def mutate_def map_of_update)

lemma mutate_assign:
  "mutate (assign sessions k v) k v' = assign sessions k v'"
proof (cases "k = ascii ''__proto__'' \<and> map_of (own sessions) k = None")
  case True
  then have k: "k = ascii ''__proto__''"
    and none: "map_of (own sessions) (ascii ''__proto__'') = None"
    by blast+
  show ?thesis
    unfolding k by (simp add: mutate_def assign_def none)
next
  case False
  then have "assign sessions k v = sessions\<lparr>own := AList.update k v (own sessions)\<rparr>"
    and "assign sessions k v' = sessions\<lparr>own := AList.update k v' (own sessions)\<rparr>"
    by (auto simp add: assign_def)
  then show ?thesis by (simp add: mutate_def map_of_update)
qed

lemma chat_push_Session:
  "property sessions sessionId = Session s \<Longrightarrow>
   chat_push sessionId t sessions
     = Inr (mutate sessions sessionId (s\<lparr>chat := chat s @ [t]\<rparr>))"
  by (simp add: chat_push_def)

lemma chat_push_Truthy:
  "property sessions sessionId = Truthy \<Longrightarrow> chat_push sessionId t sessions = Inl TypeError"
  by (simp add: chat_push_def)

text \<open>
  The names inherited from \<^verbatim>\<open>Object.prototype\<close> are there in every table, whatever the
  requests before: an own property under such a name is a session, and otherwise the lookup
  ends at the inherited function.
\<close>

lemma property_inherited:
  assumes "k \<in> set object_prototype_names \<or> k = ascii ''__proto__''"
  shows "\<not> falsy (property sessions k)"
  using assms
  by (auto simp add: property_def object_prototype_prop_def falsy_def session_field_def
      object_prototype_names_def split: option.splits)

lemma property_empty_table:
  "property empty_table k
    = (if k = ascii ''__proto__'' \<or> k \<in> set object_prototype_names then Truthy else Undefined)"
  by (simp add: property_def empty_table_def object_prototype_prop_def)

lemma mutate_mutate: "mutate (mutate sessions k a) k b = mutate sessions k b"
  by (simp add: mutate_def map_of_update)

lemma own_mutate:
  "own (mutate sessions k s)
    = (if map_of (own sessions) k = None then own sessions
       else AList.update k s (own sessions))"
  by (simp add: mutate_def)

lemma own_assign_falsy:
  "falsy (property sessions k) \<Longrightarrow> own (assign sessions k v) = AList.update k v (own sessions)"
  by (drule falsy_property) (simp add: own_assign)

section \<open>The guided questions\<close>

lemma fallback_defined:
  "i < 9 \<Longrightarrow> \<exists>q. map_of fallbackQuestions (BMC_SECTIONS ! i) = Some q \<and> q \<noteq> []"
  by (drule below_nine) (elim disjE; simp add: fallbackQuestions_def BMC_SECTIONS_def)

lemma fallbackMessage_section:
  assumes "map_of fallbackQuestions (BMC_SECTIONS ! (k mod 9)) = Some q"
  shows "fallbackMessage (index BMC_SECTIONS (k mod 9)) = q"
proof -
  from fallback_defined [of "k mod 9"] assms have "q \<noteq> []" by simp
  with assms show ?thesis
    by (simp add: fallbackMessage_def index_def length_BMC_SECTIONS lookup_def or_else_def
        template_arg_def)
qed

text \<open>
  What \<^verbatim>\<open>generateNextQuestion\<close> does to the table, by what \<^verbatim>\<open>sessions[sessionId]\<close> is
  when it is called. On a session, it appends one assistant turn, the text of the service or
  the fixed question. Where the guard \<^verbatim>\<open>!sessions[sessionId]\<close> holds, it creates the
  session with that turn. Where \<^verbatim>\<open>sessions[sessionId]\<close> is an inherited value, it creates
  nothing, both pushes raise, and the \<open>TypeError\<close> of the second leaves the function.
\<close>

lemma generateNextQuestion_Session:
  assumes "property sessions sessionId = Session s"
  shows "generateNextQuestion m sessionId sessions =
    (let q = (case generate m (bmc_prompt (current_section sessionId sessions)) of
                Inr aiMessage \<Rightarrow> aiMessage
              | Inl error \<Rightarrow> fallbackMessage (current_section sessionId sessions))
     in (Inr q,
         mutate sessions sessionId (s\<lparr>chat := chat s @ [\<lparr>role = Assistant, content = q\<rparr>]\<rparr>)))"
  using assms
  by (simp add: generateNextQuestion_def bmc_catch_def ensure_bmc_session_def chat_push_Session
      Let_def split: sum.splits)

lemma generateNextQuestion_falsy:
  assumes "falsy (property sessions sessionId)"
  shows "generateNextQuestion m sessionId sessions =
    (let q = (case generate m (bmc_prompt (current_section sessionId sessions)) of
                Inr aiMessage \<Rightarrow> aiMessage
              | Inl error \<Rightarrow> fallbackMessage (current_section sessionId sessions))
     in (Inr q,
         assign sessions sessionId
           \<lparr>bmcData = None, chat = [\<lparr>role = Assistant, content = q\<rparr>], bmcProgress = None,
            mode = Bmc, createdAt = None\<rparr>))"
  using assms
  by (simp add: generateNextQuestion_def bmc_catch_def ensure_bmc_session_def
      chat_push_Session [OF property_assign] mutate_assign Let_def split: sum.splits)

lemma generateNextQuestion_Truthy:
  assumes "property sessions sessionId = Truthy"
  shows "generateNextQuestion m sessionId sessions = (Inl TypeError, sessions)"
  using assms
  by (simp add: generateNextQuestion_def bmc_catch_def ensure_bmc_session_def chat_push_Truthy
      Let_def split: sum.splits)

text \<open>
  Claim C3: for every section index \<open>k\<close>, on a session whose progress is \<open>k\<close>, when the
  generation fails (as it does when the model is unavailable, \<open>generate_unavailable\<close>),
  \<^verbatim>\<open>generateNextQuestion\<close> returns the fixed question of the section
  \<open>BMC_SECTIONS ! (k mod 9)\<close>, and that text, with the role of the assistant, is then the
  last turn of the session.
\<close>

theorem next_question_fallback:
  assumes "property sessions sessionId = Session s" and "bmcProgress s = Some k"
    and "generate m (bmc_prompt (index BMC_SECTIONS (k mod 9))) = Inl e"
  shows "\<exists>q sessions' s'.
           generateNextQuestion m sessionId sessions = (Inr q, sessions')
         \<and> map_of fallbackQuestions (BMC_SECTIONS ! (k mod 9)) = Some q
         \<and> property sessions' sessionId = Session s'
         \<and> chat s' = chat s @ [\<lparr>role = Assistant, content = q\<rparr>]
         \<and> last (chat s') = \<lparr>role = Assistant, content = q\<rparr>"
proof -
  obtain q where q: "map_of fallbackQuestions (BMC_SECTIONS ! (k mod 9)) = Some q"
    using fallback_defined [of "k mod 9"] by auto
  have current: "current_section sessionId sessions = index BMC_SECTIONS (k mod 9)"
    using assms(1,2) by (simp add: current_section_def length_BMC_SECTIONS)
  show ?thesis
    using q assms(3)
    by (simp add: generateNextQuestion_Session [OF assms(1)] current fallbackMessage_section
        property_mutate [OF assms(1)])
qed

text \<open>
  A session at progress 10, with the model undefined: the question is the one of the second
  section, \<open>10 mod 9 = 1\<close>.
\<close>

theorem next_question_fallback_witness:
  "property \<lparr>own = [(ascii ''S1'', \<lparr>bmcData = Some (), chat = [], bmcProgress = Some 10,
                                    mode = Bmc, createdAt = Some 0\<rparr>)], proto = None\<rparr>
     (ascii ''S1'')
     = Session \<lparr>bmcData = Some (), chat = [], bmcProgress = Some 10, mode = Bmc,
                createdAt = Some 0\<rparr>
   \<and> generate None (bmc_prompt (index BMC_SECTIONS (10 mod 9))) = Inl (Some TypeError)
   \<and> (\<exists>q sessions' s'.
         generateNextQuestion None (ascii ''S1'')
           \<lparr>own = [(ascii ''S1'', \<lparr>bmcData = Some (), chat = [], bmcProgress = Some 10,
                                   mode = Bmc, createdAt = Some 0\<rparr>)], proto = None\<rparr>
           = (Inr q, sessions')
       \<and> map_of fallbackQuestions (ascii ''Key Activities'') = Some q
       \<and> property sessions' (ascii ''S1'') = Session s'
       \<and> chat s' = [\<lparr>role = Assistant, content = q\<rparr>]
       \<and> last (chat s') = \<lparr>role = Assistant, content = q\<rparr>)"
proof -
  let ?s = "\<lparr>bmcData = Some (), chat = [], bmcProgress = Some 10, mode = Bmc,
             createdAt = Some (0 :: int)\<rparr>"
  let ?t = "\<lparr>own = [(ascii ''S1'', ?s)], proto = None\<rparr>"
  have session: "property ?t (ascii ''S1'') = Session ?s"
    by (simp add: property_def)
  have down: "generate None (bmc_prompt (index BMC_SECTIONS (10 mod 9))) = Inl (Some TypeError)"
    by (rule generate_unavailable)
  have section_1: "BMC_SECTIONS ! (10 mod 9) = ascii ''Key Activities''"
    by (simp add: BMC_SECTIONS_def)
  from next_question_fallback [of ?t "ascii ''S1''" ?s 10 None "Some TypeError"]
    session down section_1
  show ?thesis
    by simp
qed

section \<open>The route \<^verbatim>\<open>/api/next\<close>\<close>

text \<open>
  The three answers of the route, by what \<^verbatim>\<open>sessions[studentId]\<close> is: the answer 400 where
  the guard holds, a question on a session, whatever the generation service does, and the
  answer 500 on an inherited value.
\<close>

lemma api_next_falsy:
  "falsy (property sessions studentId) \<Longrightarrow>
   api_next m studentId sessions = (NoActiveSession, sessions)"
  by (simp add: api_next_def)

lemma api_next_Session:
  assumes "property sessions studentId = Session s"
  shows "api_next m studentId sessions =
    (let q = (case generate m (bmc_prompt (current_section studentId sessions)) of
                Inr aiMessage \<Rightarrow> aiMessage
              | Inl error \<Rightarrow> fallbackMessage (current_section studentId sessions))
     in (NextQuestion q (bmcProgress s) (length BMC_SECTIONS),
         mutate sessions studentId
           (s\<lparr>chat := chat s @ [\<lparr>role = Assistant, content = q\<rparr>]\<rparr>)))"
  using assms
  by (simp add: api_next_def generateNextQuestion_Session property_mutate [OF assms] Let_def)

lemma api_next_Truthy:
  "property sessions studentId = Truthy \<Longrightarrow>
   api_next m studentId sessions = (FailedToGenerate, sessions)"
  by (simp add: api_next_def generateNextQuestion_Truthy)

text \<open>
  For a student identifier that names no property of \<^verbatim>\<open>Object.prototype\<close>, in a table whose
  prototype was not replaced, the route answers as the specification says: without a session
  that no active session was found, leaving the table as it was, and with a session a
  question, the progress and the number of sections, never the answer 500.
\<close>

lemma api_next_ordinary:
  assumes "proto sessions = None" and "studentId \<noteq> ascii ''__proto__''"
    and "studentId \<notin> set object_prototype_names"
  shows "(map_of (own sessions) studentId = None \<longrightarrow>
            api_next m studentId sessions = (NoActiveSession, sessions))
       \<and> (\<forall>s. map_of (own sessions) studentId = Some s \<longrightarrow>
            (\<exists>question sessions'.
               api_next m studentId sessions
                 = (NextQuestion question (bmcProgress s) (length BMC_SECTIONS), sessions')))
       \<and> fst (api_next m studentId sessions) \<noteq> FailedToGenerate"
proof (cases "map_of (own sessions) studentId")
  case None
  with assms have "falsy (property sessions studentId)"
    by (simp add: property_ordinary falsy_def)
  with None show ?thesis by (simp add: api_next_falsy)
next
  case (Some s)
  then have "property sessions studentId = Session s"
    by (rule property_own)
  with Some show ?thesis by (simp add: api_next_Session Let_def)
qed

text \<open>
  Claim C9 says that \<^verbatim>\<open>/api/next\<close> for a student without a session fails with
  \<open>SessionNotFound\<close>, and that a generation failure is never a hard error. The guard of the
  route, \<^verbatim>\<open>!sessions[studentId]\<close>, reads through the prototype of the table. For the
  identifier \<^verbatim>\<open>constructor\<close>, in the table of a server that has seen no request, there is no
  session, the guard finds the inherited function and lets the request in, both pushes of
  \<^verbatim>\<open>generateNextQuestion\<close> raise, and the route answers 500, that it failed to generate
  the question, whatever the generation service does.
\<close>

theorem next_at_inherited_name:
  "map_of (own empty_table) (ascii ''constructor'') = None
   \<and> property empty_table (ascii ''constructor'') = Truthy
   \<and> generateNextQuestion m (ascii ''constructor'') empty_table = (Inl TypeError, empty_table)
   \<and> api_next m (ascii ''constructor'') empty_table = (FailedToGenerate, empty_table)
   \<and> api_next m (ascii ''constructor'') empty_table \<noteq> (NoActiveSession, empty_table)"
proof -
  have inherited: "property empty_table (ascii ''constructor'') = Truthy"
    by (simp add: property_empty_table object_prototype_names_def)
  then show ?thesis
    by (simp add: generateNextQuestion_Truthy api_next_Truthy) (simp add: empty_table_def)
qed

section \<open>The design assistant\<close>

text \<open>
  What \<^verbatim>\<open>handleDesignAssistant\<close> does to the table, by what \<^verbatim>\<open>sessions[sessionId]\<close> is
  when it is called. On a session, it appends the message of the user and then the reply, the
  text of the service or the fixed text of the topic. Where the guard
  \<^verbatim>\<open>!sessions[sessionId]\<close> holds, it creates the session in design mode first. Where
  \<^verbatim>\<open>sessions[sessionId]\<close> is an inherited value, it creates nothing and the first push
  raises a \<open>TypeError\<close>, outside \<^verbatim>\<open>try\<close>.
\<close>

lemma handleDesignAssistant_Session:
  assumes "property sessions sessionId = Session s"
  shows "handleDesignAssistant m sessionId userMessage sessions =
    (let reply = (case generate m (design_prompt (designContext userMessage) userMessage) of
                    Inr aiResponse \<Rightarrow> aiResponse
                  | Inl error \<Rightarrow> fallbackResponse (designContext userMessage))
     in (Inr reply,
         mutate sessions sessionId
           (s\<lparr>chat := chat s @ [\<lparr>role = User, content = userMessage\<rparr>,
                                  \<lparr>role = Assistant, content = reply\<rparr>]\<rparr>)))"
proof -
  let ?s1 = "s\<lparr>chat := chat s @ [\<lparr>role = User, content = userMessage\<rparr>]\<rparr>"
  have pushed: "property (mutate sessions sessionId ?s1) sessionId = Session ?s1"
    using assms by (rule property_mutate)
  show ?thesis
    using assms
    by (simp add: handleDesignAssistant_def ensure_design_session_def design_catch_def
        chat_push_Session [OF assms] chat_push_Session [OF pushed] mutate_mutate Let_def
        split: sum.splits)
qed

lemma handleDesignAssistant_falsy:
  assumes "falsy (property sessions sessionId)"
  shows "handleDesignAssistant m sessionId userMessage sessions =
    (let reply = (case generate m (design_prompt (designContext userMessage) userMessage) of
                    Inr aiResponse \<Rightarrow> aiResponse
                  | Inl error \<Rightarrow> fallbackResponse (designContext userMessage))
     in (Inr reply,
         assign sessions sessionId
           \<lparr>bmcData = Some (),
            chat = [\<lparr>role = User, content = userMessage\<rparr>,
                    \<lparr>role = Assistant, content = reply\<rparr>],
            bmcProgress = Some 0, mode = Design, createdAt = None\<rparr>))"
  using assms
  by (simp add: handleDesignAssistant_def ensure_design_session_def design_catch_def
      chat_push_Session [OF property_assign] mutate_assign Let_def split: sum.splits)

lemma handleDesignAssistant_Truthy:
  assumes "property sessions sessionId = Truthy"
  shows "handleDesignAssistant m sessionId userMessage sessions = (Inl TypeError, sessions)"
  using assms
  by (simp add: handleDesignAssistant_def ensure_design_session_def chat_push_Truthy)

lemma api_chat_Truthy:
  assumes "property sessions studentId = Truthy" and "studentId \<noteq> []" and "message \<noteq> []"
  shows "api_chat m studentId message sessions = (FailedToProcess, sessions)"
  using assms by (simp add: api_chat_def handleDesignAssistant_Truthy)

text \<open>
  For a student identifier that names no property of \<^verbatim>\<open>Object.prototype\<close>, in a table whose
  prototype was not replaced, the chat operation does as the specification says: it returns a
  reply; a missing session is created in design mode with an empty transcript; the message is
  appended as a turn of the user, and the reply after it. The route never answers that no
  active session was found.
\<close>

lemma api_chat_ordinary:
  assumes "proto sessions = None" and "sessionId \<noteq> ascii ''__proto__''"
    and "sessionId \<notin> set object_prototype_names"
  shows "\<exists>reply sessions' s'.
      handleDesignAssistant m sessionId userMessage sessions = (Inr reply, sessions')
    \<and> map_of (own sessions') sessionId = Some s'
    \<and> (map_of (own sessions) sessionId = None \<longrightarrow>
          map_of (own (ensure_design_session sessionId sessions)) sessionId
            = Some \<lparr>bmcData = Some (), chat = [], bmcProgress = Some 0, mode = Design,
                    createdAt = None\<rparr>
        \<and> s' = \<lparr>bmcData = Some (),
                  chat = [\<lparr>role = User, content = userMessage\<rparr>,
                          \<lparr>role = Assistant, content = reply\<rparr>],
                  bmcProgress = Some 0, mode = Design, createdAt = None\<rparr>)
    \<and> (\<forall>s. map_of (own sessions) sessionId = Some s \<longrightarrow>
          s' = s\<lparr>chat := chat s @ [\<lparr>role = User, content = userMessage\<rparr>,
                                   \<lparr>role = Assistant, content = reply\<rparr>]\<rparr>)
    \<and> (\<forall>k. k \<noteq> sessionId \<longrightarrow> map_of (own sessions') k = map_of (own sessions) k)
    \<and> (sessionId \<noteq> [] \<and> userMessage \<noteq> [] \<longrightarrow>
          api_chat m sessionId userMessage sessions = (ChatResponse reply (mode s'), sessions'))"
proof (cases "map_of (own sessions) sessionId")
  case None
  with assms have guard: "falsy (property sessions sessionId)"
    by (simp add: property_ordinary falsy_def)
  from None guard assms(2) show ?thesis
    by (simp add: handleDesignAssistant_falsy api_chat_def ensure_design_session_def
        own_assign map_of_update Let_def)
next
  case (Some s)
  then have session: "property sessions sessionId = Session s"
    by (rule property_own)
  from Some show ?thesis
    by (simp add: handleDesignAssistant_Session [OF session] api_chat_def own_mutate
        property_mutate [OF session] map_of_update Let_def)
qed

text \<open>
  Claim C6 says that the chat operation, for every student identifier, creates the session
  when it is absent and appends the message of the user. The guard of
  \<^verbatim>\<open>handleDesignAssistant\<close>, \<^verbatim>\<open>!sessions[sessionId]\<close>, reads through the prototype of the
  table. For the identifier \<^verbatim>\<open>constructor\<close>, in the table of a server that has seen no
  request, there is no session, the guard finds the inherited function and creates none, the
  push of the message raises, and \<^verbatim>\<open>/api/chat\<close> answers 500, that it failed to process the
  message, for every message that is not empty and whatever the generation service does. The
  table is left without a session for the identifier.
\<close>

theorem chat_at_inherited_name:
  "map_of (own empty_table) (ascii ''constructor'') = None
   \<and> property empty_table (ascii ''constructor'') = Truthy
   \<and> ensure_design_session (ascii ''constructor'') empty_table = empty_table
   \<and> handleDesignAssistant m (ascii ''constructor'') (c # cs) empty_table
       = (Inl TypeError, empty_table)
   \<and> api_chat m (ascii ''constructor'') (c # cs) empty_table = (FailedToProcess, empty_table)"
proof -
  have inherited: "property empty_table (ascii ''constructor'') = Truthy"
    by (simp add: property_empty_table object_prototype_names_def)
  have named: "ascii ''constructor'' \<noteq> []"
    by simp
  from inherited named show ?thesis
    by (simp add: handleDesignAssistant_Truthy api_chat_Truthy ensure_design_session_def)
      (simp add: empty_table_def)
qed

section \<open>The topic of a message\<close>

lemma toLowerCase_idem: "toLowerCase (toLowerCase s) = toLowerCase s"
  by (induction s) (auto simp: toLowerCase_def lower_unit_def)

text \<open>\<open>str_includes\<close> is the substring relation.\<close>

lemma str_includes_sublist: "str_includes s kw \<longleftrightarrow> sublist kw s"
  by (induction s) (auto simp: sublist_Cons_right)

lemma topics_distinct:
  "distinct [ctx_logo, ctx_website, ctx_identity, ctx_cover, ctx_social, ctx_slides, ctx_general]"
  by (simp add: ctx_logo_def ctx_website_def ctx_identity_def ctx_cover_def ctx_social_def
      ctx_slides_def ctx_general_def)

lemma designContext_first_matching_rule: "designContext message = first_matching_rule message"
  by (simp add: designContext_def first_matching_rule_def topic_rules_def rule_matches_def
      Let_def)

text \<open>
  Claim C4: the topic of a message is a function of its text: the keywords are looked for,
  as substrings, in the message put in lower case, so that two messages that differ in case
  only have the same topic; the rules are tried in a fixed order and the first that matches
  gives the topic. The message "I need a logo design for my project" gets the topic of logo
  design, the message "how do I design a site?" the one of website design, a message with
  the keyword of a site before the keyword of a logo the topic of logo design, whose rule
  comes first, and a message that no rule matches the general topic.
\<close>

theorem topic_is_first_matching_rule:
  "designContext message = first_matching_rule message
   \<and> (toLowerCase message = toLowerCase message' \<longrightarrow>
        designContext message = designContext message')
   \<and> (\<forall>rule. rule_matches message rule
               = (\<exists>kw \<in> set (fst rule). sublist kw (toLowerCase message)))
   \<and> designContext
        [0x623, 0x62D, 0x62A, 0x627, 0x62C, 0x20, 0x62A, 0x635, 0x645, 0x64A, 0x645, 0x20, 0x634,
         0x639, 0x627, 0x631, 0x20, 0x644, 0x645, 0x634, 0x631, 0x648, 0x639, 0x64A] = ctx_logo
   \<and> designContext
        [0x643, 0x64A, 0x641, 0x20, 0x623, 0x635, 0x645, 0x645, 0x20, 0x645, 0x648, 0x642, 0x639,
         0x61F] = ctx_website
   \<and> designContext
        ([0x645, 0x648, 0x642, 0x639] @ [0x20] @ [0x634, 0x639, 0x627, 0x631]) = ctx_logo
   \<and> ((\<forall>rule \<in> set topic_rules. \<not> rule_matches message rule) \<longrightarrow>
        designContext message = ctx_general)
   \<and> ctx_logo \<noteq> ctx_general \<and> ctx_website \<noteq> ctx_general \<and> ctx_logo \<noteq> ctx_website"
proof -
  have same_case: "toLowerCase message = toLowerCase message' \<longrightarrow>
      designContext message = designContext message'"
    by (simp add: designContext_def)
  have matching: "\<forall>rule. rule_matches message rule
      = (\<exists>kw \<in> set (fst rule). sublist kw (toLowerCase message))"
    by (simp add: rule_matches_def list_ex_iff str_includes_sublist)
  have logo: "designContext
        [0x623, 0x62D, 0x62A, 0x627, 0x62C, 0x20, 0x62A, 0x635, 0x645, 0x64A, 0x645, 0x20, 0x634,
         0x639, 0x627, 0x631, 0x20, 0x644, 0x645, 0x634, 0x631, 0x648, 0x639, 0x64A] = ctx_logo"
    by (simp add: designContext_def toLowerCase_def lower_unit_def)
  have website: "designContext
        [0x643, 0x64A, 0x641, 0x20, 0x623, 0x635, 0x645, 0x645, 0x20, 0x645, 0x648, 0x642, 0x639,
         0x61F] = ctx_website"
    by (simp add: designContext_def toLowerCase_def lower_unit_def)
  have order: "designContext
        ([0x645, 0x648, 0x642, 0x639] @ [0x20] @ [0x634, 0x639, 0x627, 0x631]) = ctx_logo"
    by (simp add: designContext_def toLowerCase_def lower_unit_def)
  have general: "(\<forall>rule \<in> set topic_rules. \<not> rule_matches message rule) \<longrightarrow>
      designContext message = ctx_general"
  proof
    assume "\<forall>rule \<in> set topic_rules. \<not> rule_matches message rule"
    then have "find (rule_matches message) topic_rules = None"
      by (simp add: find_None_iff)
    then show "designContext message = ctx_general"
      by (simp add: designContext_first_matching_rule first_matching_rule_def)
  qed
  from designContext_first_matching_rule same_case matching logo website order general
    topics_distinct
  show ?thesis by simp
qed

text \<open>
  Two spellings of an English sentence: the same lower case, the same topic, and, as no rule
  matches, the general one.
\<close>

theorem topic_is_first_matching_rule_witness:
  "toLowerCase (ascii ''Hello LOGO'') = toLowerCase (ascii ''hello logo'')
   \<and> designContext (ascii ''Hello LOGO'') = designContext (ascii ''hello logo'')
   \<and> list_all (\<lambda>rule. \<not> rule_matches (ascii ''Hello LOGO'') rule) topic_rules
   \<and> designContext (ascii ''Hello LOGO'') = ctx_general"
proof -
  have lower: "toLowerCase (ascii ''Hello LOGO'') = toLowerCase (ascii ''hello logo'')"
    by (simp add: ascii_def toLowerCase_def lower_unit_def)
  have none: "list_all (\<lambda>rule. \<not> rule_matches (ascii ''Hello LOGO'') rule) topic_rules"
    by (simp add: topic_rules_def rule_matches_def ascii_def toLowerCase_def lower_unit_def)
  note topic = topic_is_first_matching_rule [of "ascii ''Hello LOGO''" "ascii ''hello logo''"]
  from topic lower
  have same: "designContext (ascii ''Hello LOGO'') = designContext (ascii ''hello logo'')"
    by blast
  from none have "\<forall>rule \<in> set topic_rules. \<not> rule_matches (ascii ''Hello LOGO'') rule"
    by (simp only: list_all_iff)
  with topic have general: "designContext (ascii ''Hello LOGO'') = ctx_general"
    by blast
  from lower same none general show ?thesis by (intro conjI)
qed

section \<open>The fixed text of the design assistant\<close>

lemma fallbackResponse_parts:
  "fallbackResponse topic =
     fallback_header
     @ (if topic = ctx_general then [] else fallback_intro_1 @ topic @ fallback_intro_2)
     @ (if topic = ctx_logo then logo_practices
        else if topic = ctx_website then website_practices
        else if topic = ctx_identity then identity_practices
        else generic_help)
     @ closing_tip"
  by (simp add: fallbackResponse_def Let_def)

lemma designContext_range:
  "designContext message
     \<in> set [ctx_logo, ctx_website, ctx_identity, ctx_cover, ctx_social, ctx_slides, ctx_general]"
  by (simp add: designContext_def Let_def)

lemma bullets_of_the_lists:
  "count_list logo_practices 0x2022 = 5"
  "count_list website_practices 0x2022 = 5"
  "count_list identity_practices 0x2022 = 5"
  "count_list generic_help 0x2022 = 6"
  by (simp_all add: logo_practices_def website_practices_def identity_practices_def
      generic_help_def)

text \<open>
  Claim C5 says that, when the generation fails, the reply of the design assistant has, for
  every topic, practices of that topic, the generic list being for the general topic only.
  The \<^verbatim>\<open>catch\<close> block opens the reply of every topic but the general one with the line
  "in the field of (the topic), I advise you to:", and then has a list of practices for three
  of the six topics; its last \<^verbatim>\<open>else\<close> gives the text of the general topic, the offer of
  help "I can help you with:", to the other three. A first message that is the keyword of
  cover design, with the model undefined: the topic is cover design, not the general one, and
  the reply is the header, the line that names cover design, the text of the general topic
  and the closing tip. The same with the keyword of a logo gives the practices of logo
  design after the line.
\<close>

theorem cover_topic_gets_generic_text:
  "designContext [0x63A, 0x644, 0x627, 0x641] = ctx_cover
   \<and> ctx_cover \<noteq> ctx_general
   \<and> handleDesignAssistant None (ascii ''S2'') [0x63A, 0x644, 0x627, 0x641] empty_table
       = (Inr (fallback_header @ fallback_intro_1 @ ctx_cover @ fallback_intro_2
               @ generic_help @ closing_tip),
          \<lparr>own = [(ascii ''S2'',
                   \<lparr>bmcData = Some (),
                    chat = [\<lparr>role = User, content = [0x63A, 0x644, 0x627, 0x641]\<rparr>,
                            \<lparr>role = Assistant,
                             content = fallback_header @ fallback_intro_1 @ ctx_cover
                                       @ fallback_intro_2 @ generic_help @ closing_tip\<rparr>],
                    bmcProgress = Some 0, mode = Design, createdAt = None\<rparr>)],
           proto = None\<rparr>)
   \<and> fallbackResponse ctx_general = fallback_header @ generic_help @ closing_tip
   \<and> designContext [0x634, 0x639, 0x627, 0x631] = ctx_logo
   \<and> fst (handleDesignAssistant None (ascii ''S2'') [0x634, 0x639, 0x627, 0x631] empty_table)
       = Inr (fallback_header @ fallback_intro_1 @ ctx_logo @ fallback_intro_2
              @ logo_practices @ closing_tip)"
proof -
  have cover: "designContext [0x63A, 0x644, 0x627, 0x641] = ctx_cover"
    by (simp add: designContext_def toLowerCase_def lower_unit_def)
  have logo: "designContext [0x634, 0x639, 0x627, 0x631] = ctx_logo"
    by (simp add: designContext_def toLowerCase_def lower_unit_def)
  have differ: "ctx_cover \<noteq> ctx_general" "ctx_cover \<noteq> ctx_logo" "ctx_cover \<noteq> ctx_website"
    "ctx_cover \<noteq> ctx_identity" "ctx_logo \<noteq> ctx_general" "ctx_general \<noteq> ctx_logo"
    "ctx_general \<noteq> ctx_website" "ctx_general \<noteq> ctx_identity"
    using topics_distinct by auto
  have fresh: "falsy (property empty_table (ascii ''S2''))"
    by (simp add: property_empty_table object_prototype_names_def falsy_def)
  have created: "\<And>s. assign empty_table (ascii ''S2'') s
      = \<lparr>own = [(ascii ''S2'', s)], proto = None\<rparr>"
    by (simp add: assign_def empty_table_def)
  have general: "fallbackResponse ctx_general = fallback_header @ generic_help @ closing_tip"
    by (simp add: fallbackResponse_parts differ)
  have cover_reply: "handleDesignAssistant None (ascii ''S2'') [0x63A, 0x644, 0x627, 0x641]
        empty_table
      = (Inr (fallback_header @ fallback_intro_1 @ ctx_cover @ fallback_intro_2
              @ generic_help @ closing_tip),
         \<lparr>own = [(ascii ''S2'',
                  \<lparr>bmcData = Some (),
                   chat = [\<lparr>role = User, content = [0x63A, 0x644, 0x627, 0x641]\<rparr>,
                           \<lparr>role = Assistant,
                            content = fallback_header @ fallback_intro_1 @ ctx_cover
                                      @ fallback_intro_2 @ generic_help @ closing_tip\<rparr>],
                   bmcProgress = Some 0, mode = Design, createdAt = None\<rparr>)],
          proto = None\<rparr>)"
    by (simp add: handleDesignAssistant_falsy [OF fresh] generate_unavailable cover differ
        fallbackResponse_parts created Let_def)
  have logo_reply: "fst (handleDesignAssistant None (ascii ''S2'') [0x634, 0x639, 0x627, 0x631]
        empty_table)
      = Inr (fallback_header @ fallback_intro_1 @ ctx_logo @ fallback_intro_2
             @ logo_practices @ closing_tip)"
    by (simp add: handleDesignAssistant_falsy [OF fresh] generate_unavailable logo differ
        fallbackResponse_parts Let_def)
  from cover differ(1) cover_reply general logo logo_reply show ?thesis
    by (intro conjI)
qed

section \<open>The cleanup of old sessions\<close>

text \<open>
  The loop of the cleanup, run over distinct keys of the table, deletes the sessions whose
  \<^verbatim>\<open>createdAt\<close> is before the limit and counts them.
\<close>

lemma map_of_delete_if:
  "map_of (AList.delete k al) k' = (if k' = k then None else map_of al k')"
  by (simp add: delete_conv')

lemma cleanup_forEach_filter:
  "distinct ks \<Longrightarrow> set ks \<subseteq> fst ` set sessions \<Longrightarrow>
   cleanup_forEach ks limit sessions n =
     (Inr (n + length (filter (\<lambda>k. \<exists>s. map_of sessions k = Some s \<and> date_lt (createdAt s) limit) ks)),
      filter (\<lambda>(k, s'). \<not> (k \<in> set ks \<and> (\<exists>s. map_of sessions k = Some s \<and> date_lt (createdAt s) limit)))
        sessions)"
proof (induction ks arbitrary: sessions n)
  case Nil
  then show ?case by simp
next
  case (Cons k ks)
  from Cons.prems obtain s where s: "map_of sessions k = Some s"
    by (cases "map_of sessions k") (auto simp: map_of_eq_None_iff)
  from Cons.prems have fresh: "k \<notin> set ks" and dist: "distinct ks" by simp_all
  show ?case
  proof (cases "date_lt (createdAt s) limit")
    case True
    let ?rest = "AList.delete k sessions"
    have keys: "set ks \<subseteq> fst ` set ?rest"
    proof -
      have "fst ` set ?rest = set (map fst ?rest)" by simp
      also have "\<dots> = fst ` set sessions - {k}" by (simp only: delete_keys) auto
      finally show ?thesis using Cons.prems fresh by auto
    qed
    have same: "\<And>k'. k' \<noteq> k \<Longrightarrow> map_of ?rest k' = map_of sessions k'"
      by (simp add: map_of_delete_if)
    have count: "filter (\<lambda>k'. \<exists>s. map_of ?rest k' = Some s \<and> date_lt (createdAt s) limit) ks
        = filter (\<lambda>k'. \<exists>s. map_of sessions k' = Some s \<and> date_lt (createdAt s) limit) ks"
      using fresh by (intro filter_cong refl) (auto simp: map_of_delete_if)
    have kept: "filter (\<lambda>(k', s'). \<not> (k' \<in> set ks \<and> (\<exists>s. map_of ?rest k' = Some s \<and> date_lt (createdAt s) limit))) ?rest
        = filter (\<lambda>(k', s'). \<not> (k' \<in> set (k # ks) \<and> (\<exists>s. map_of sessions k' = Some s \<and> date_lt (createdAt s) limit))) sessions"
      unfolding AList.delete_eq filter_filter
      using s True by (intro filter_cong refl) (auto simp: map_of_delete_if AList.delete_eq [symmetric] split: if_splits)
    have "cleanup_forEach (k # ks) limit sessions n = cleanup_forEach ks limit ?rest (n + 1)"
      using s True by simp
    also note Cons.IH [OF dist keys, of "n + 1"]
    finally show ?thesis
      unfolding count kept using s True by simp
  next
    case False
    have keys: "set ks \<subseteq> fst ` set sessions" using Cons.prems by simp
    have kept: "filter (\<lambda>(k', s'). \<not> (k' \<in> set ks \<and> (\<exists>s. map_of sessions k' = Some s \<and> date_lt (createdAt s) limit))) sessions
        = filter (\<lambda>(k', s'). \<not> (k' \<in> set (k # ks) \<and> (\<exists>s. map_of sessions k' = Some s \<and> date_lt (createdAt s) limit))) sessions"
      using s False by (intro filter_cong refl) auto
    have "cleanup_forEach (k # ks) limit sessions n = cleanup_forEach ks limit sessions n"
      using s False by simp
    also note Cons.IH [OF dist keys, of n]
    finally show ?thesis
      unfolding kept using s False by simp
  qed
qed

lemma cleanup_filter:
  assumes "wf_sessions sessions"
  shows "cleanup now sessions =
    (Inr (length (filter (\<lambda>(k, s). date_lt (createdAt s) (twoHoursAgo now)) sessions)),
     filter (\<lambda>(k, s). \<not> date_lt (createdAt s) (twoHoursAgo now)) sessions)"
proof -
  from assms have dist: "distinct (map fst sessions)" by (simp add: wf_sessions_def)
  have own: "\<And>k s. (k, s) \<in> set sessions \<Longrightarrow> map_of sessions k = Some s"
    using dist by simp
  have count: "length (filter (\<lambda>k. \<exists>s. map_of sessions k = Some s \<and> date_lt (createdAt s) (twoHoursAgo now)) (map fst sessions))
      = length (filter (\<lambda>(k, s). date_lt (createdAt s) (twoHoursAgo now)) sessions)"
  proof -
    have "filter ((\<lambda>k. \<exists>s. map_of sessions k = Some s \<and> date_lt (createdAt s) (twoHoursAgo now)) \<circ> fst) sessions
        = filter (\<lambda>(k, s). date_lt (createdAt s) (twoHoursAgo now)) sessions"
      by (intro filter_cong refl) (auto simp: own)
    then show ?thesis by (simp add: filter_map)
  qed
  have kept: "filter (\<lambda>(k, s'). \<not> (k \<in> set (map fst sessions) \<and> (\<exists>s. map_of sessions k = Some s \<and> date_lt (createdAt s) (twoHoursAgo now)))) sessions
      = filter (\<lambda>(k, s). \<not> date_lt (createdAt s) (twoHoursAgo now)) sessions"
    by (intro filter_cong refl) (auto simp: own intro: rev_image_eqI)
  have "set (map fst sessions) \<subseteq> fst ` set sessions" by simp
  from cleanup_forEach_filter [OF dist this, of "twoHoursAgo now" 0]
  show ?thesis
    unfolding cleanup_def count kept by simp
qed

lemma map_of_filter_distinct:
  "distinct (map fst al) \<Longrightarrow>
   map_of (filter (\<lambda>(k, v). P v) al) k
     = (case map_of al k of None \<Rightarrow> None | Some v \<Rightarrow> if P v then Some v else None)"
  by (induction al) (auto simp: map_of_eq_None_iff image_iff split: option.splits)




section \<open>Runs of the server: what no request changes\<close>

lemma run_snoc: "run (rs @ [r]) = handle r (run rs)"
  by (simp add: run_def)

lemma wf_update: "wf_sessions sessions \<Longrightarrow> wf_sessions (AList.update k v sessions)"
  by (simp add: wf_sessions_def distinct_update)

text \<open>
  What a request does to the own sessions of the table: a session of the new table was in the
  old one, with the same progress and creation date, or was created by this request.
\<close>

lemma handle_effect_all:
  assumes "wf_sessions (own sessions)"
  shows "wf_sessions (own (handle r sessions))
    \<and> (\<forall>k s'. map_of (own (handle r sessions)) k = Some s' \<longrightarrow>
          (\<exists>s. map_of (own sessions) k = Some s \<and> bmcProgress s' = bmcProgress s
                \<and> createdAt s' = createdAt s)
        \<or> (bmcProgress s' = Some 0 \<and> createdAt s' = None)
        \<or> (bmcProgress s' = Some 0 \<and> (\<exists>now. createdAt s' = Some now \<and> r = Start k now)))"
proof (cases r)
  case (Start studentId now)
  then show ?thesis
    using assms by (simp add: api_start_def assign_def wf_update map_of_update)
next
  case (Next studentId m)
  show ?thesis
  proof (cases "property sessions studentId" rule: looked_up_cases)
    case 1
    then show ?thesis
      using assms Next by (simp add: api_next_falsy)
  next
    case 2
    then show ?thesis
      using assms Next by (simp add: api_next_Truthy)
  next
    case (3 s)
    from property_Session [OF 3] show ?thesis
      using assms Next
      by (auto simp add: api_next_Session [OF 3] own_mutate wf_update map_of_update Let_def)
  qed
next
  case (Chat studentId message m)
  show ?thesis
  proof (cases "studentId = [] \<or> message = []")
    case True
    then show ?thesis
      using assms Chat by (auto simp add: api_chat_def)
  next
    case False
    show ?thesis
    proof (cases "property sessions studentId" rule: looked_up_cases)
      case 1
      then show ?thesis
        using assms Chat False
        by (simp add: api_chat_def handleDesignAssistant_falsy own_assign_falsy wf_update
            map_of_update Let_def)
    next
      case 2
      then show ?thesis
        using assms Chat False by (simp add: api_chat_Truthy)
    next
      case (3 s)
      from property_Session [OF 3] show ?thesis
        using assms Chat False
        by (auto simp add: api_chat_def handleDesignAssistant_Session [OF 3] own_mutate
            wf_update map_of_update Let_def)
    qed
  qed
next
  case (Cleanup now)
  from assms have dist: "distinct (map fst (own sessions))"
    by (simp add: wf_sessions_def)
  have swept: "own (handle r sessions)
      = filter (\<lambda>(k, s). \<not> date_lt (createdAt s) (twoHoursAgo now)) (own sessions)"
    unfolding Cleanup handle.simps cleanup_filter [OF assms] by simp
  show ?thesis
    unfolding swept map_of_filter_distinct [OF dist]
    using dist by (auto simp add: wf_sessions_def distinct_map_filter split: option.splits)
qed

lemma handle_wf: "wf_sessions (own sessions) \<Longrightarrow> wf_sessions (own (handle r sessions))"
  using handle_effect_all by blast

lemma handle_effect:
  assumes "wf_sessions (own sessions)" and "map_of (own (handle r sessions)) k = Some s'"
  obtains s where "map_of (own sessions) k = Some s" and "bmcProgress s' = bmcProgress s"
      and "createdAt s' = createdAt s"
    | "bmcProgress s' = Some 0" and "createdAt s' = None"
    | now where "bmcProgress s' = Some 0" and "createdAt s' = Some now" and "r = Start k now"
proof -
  from handle_effect_all [OF assms(1), of r]
  have "map_of (own (handle r sessions)) k = Some s' \<longrightarrow>
          (\<exists>s. map_of (own sessions) k = Some s \<and> bmcProgress s' = bmcProgress s
                \<and> createdAt s' = createdAt s)
        \<or> (bmcProgress s' = Some 0 \<and> createdAt s' = None)
        \<or> (bmcProgress s' = Some 0 \<and> (\<exists>now. createdAt s' = Some now \<and> r = Start k now))"
    by (elim conjE allE)
  with assms(2) that show thesis
    by (elim impE disjE exE conjE) assumption+
qed

text \<open>
  In every run of the requests that the two source files serve, the keys of the own sessions
  are distinct, the progress of every own session is \<open>0\<close>, and an own session with a creation
  date was made by a \<^verbatim>\<open>/api/start\<close> request at that date.
\<close>

lemma run_invariant:
  "wf_sessions (own (run rs))
   \<and> (\<forall>k s. map_of (own (run rs)) k = Some s \<longrightarrow>
         bmcProgress s = Some 0 \<and> (\<forall>c. createdAt s = Some c \<longrightarrow> Start k c \<in> set rs))"
proof (induction rs rule: rev_induct)
  case Nil
  then show ?case by (simp add: run_def wf_sessions_def empty_table_def)
next
  case (snoc r rs)
  then have wf: "wf_sessions (own (run rs))"
    and old: "\<And>k s. map_of (own (run rs)) k = Some s \<Longrightarrow>
      bmcProgress s = Some 0 \<and> (\<forall>c. createdAt s = Some c \<longrightarrow> Start k c \<in> set rs)"
    by blast+
  show ?case
  proof (intro conjI allI impI)
    show "wf_sessions (own (run (rs @ [r])))"
      using wf by (simp add: run_snoc handle_wf)
  next
    fix k s'
    assume "map_of (own (run (rs @ [r]))) k = Some s'"
    then have "map_of (own (handle r (run rs))) k = Some s'"
      by (simp add: run_snoc)
    from wf this show "bmcProgress s' = Some 0"
      by (rule handle_effect) (use old in auto)
  next
    fix k s' c
    assume "map_of (own (run (rs @ [r]))) k = Some s'" and c: "createdAt s' = Some c"
    then have "map_of (own (handle r (run rs))) k = Some s'"
      by (simp add: run_snoc)
    from wf this show "Start k c \<in> set (rs @ [r])"
      by (rule handle_effect) (use old c in auto)
  qed
qed

section \<open>Sessions that the cleanup never removes\<close>

text \<open>
  Claim C10: a session created by the chat operation, or by \<^verbatim>\<open>generateNextQuestion\<close>
  when it appends to a missing session, which both do where their guard
  \<^verbatim>\<open>!sessions[sessionId]\<close> holds, is an own property of the table and has no
  \<^verbatim>\<open>createdAt\<close>, and the cleanup never removes a session without \<^verbatim>\<open>createdAt\<close>, whatever
  the time; \<^verbatim>\<open>/api/start\<close> sets the field, and a session that the cleanup removes, in any
  run of the server, has the date of a \<^verbatim>\<open>/api/start\<close> request for its student.
\<close>

theorem implicit_sessions_never_expire:
  "(falsy (property sessions sessionId) \<longrightarrow>
      (\<exists>s'. map_of (own (snd (handleDesignAssistant m sessionId userMessage sessions))) sessionId
              = Some s' \<and> createdAt s' = None))
   \<and> (falsy (property sessions sessionId) \<longrightarrow>
      (\<exists>s'. map_of (own (snd (generateNextQuestion m sessionId sessions))) sessionId = Some s'
            \<and> createdAt s' = None))
   \<and> (\<forall>s'. map_of (own sessions) sessionId = None
            \<and> map_of (own (snd (handleDesignAssistant m sessionId userMessage sessions)))
                sessionId = Some s' \<longrightarrow> createdAt s' = None)
   \<and> (\<forall>s'. map_of (own sessions) sessionId = None
            \<and> map_of (own (snd (generateNextQuestion m sessionId sessions))) sessionId = Some s'
          \<longrightarrow> createdAt s' = None)
   \<and> (\<exists>s'. property (snd (api_start now sessionId sessions)) sessionId = Session s'
          \<and> createdAt s' = Some now)
   \<and> (\<forall>table s. wf_sessions table \<and> map_of table sessionId = Some s \<and> createdAt s = None \<longrightarrow>
          map_of (snd (cleanup t table)) sessionId = Some s)
   \<and> (\<forall>s. map_of (own (run rs)) sessionId = Some s
            \<and> map_of (snd (cleanup t (own (run rs)))) sessionId = None \<longrightarrow>
          (\<exists>c. createdAt s = Some c \<and> c < t - 2 * 60 * 60 * 1000
              \<and> Start sessionId c \<in> set rs))"
proof -
  have chat: "falsy (property sessions sessionId) \<longrightarrow>
      (\<exists>s'. map_of (own (snd (handleDesignAssistant m sessionId userMessage sessions))) sessionId
              = Some s' \<and> createdAt s' = None)"
    by (simp add: handleDesignAssistant_falsy own_assign_falsy Let_def map_of_update)
  have question: "falsy (property sessions sessionId) \<longrightarrow>
      (\<exists>s'. map_of (own (snd (generateNextQuestion m sessionId sessions))) sessionId = Some s'
            \<and> createdAt s' = None)"
    by (simp add: generateNextQuestion_falsy own_assign_falsy Let_def map_of_update)
  have chat_only: "\<forall>s'. map_of (own sessions) sessionId = None
        \<and> map_of (own (snd (handleDesignAssistant m sessionId userMessage sessions)))
            sessionId = Some s' \<longrightarrow> createdAt s' = None"
  proof (cases "property sessions sessionId" rule: looked_up_cases)
    case 1
    then show ?thesis
      by (simp add: handleDesignAssistant_falsy own_assign_falsy Let_def map_of_update)
  next
    case 2
    then show ?thesis
      by (auto simp add: handleDesignAssistant_Truthy)
  next
    case (3 s)
    then show ?thesis
      by (auto simp add: handleDesignAssistant_Session own_mutate Let_def)
  qed
  have question_only: "\<forall>s'. map_of (own sessions) sessionId = None
        \<and> map_of (own (snd (generateNextQuestion m sessionId sessions))) sessionId = Some s'
      \<longrightarrow> createdAt s' = None"
  proof (cases "property sessions sessionId" rule: looked_up_cases)
    case 1
    then show ?thesis
      by (simp add: generateNextQuestion_falsy own_assign_falsy Let_def map_of_update)
  next
    case 2
    then show ?thesis
      by (auto simp add: generateNextQuestion_Truthy)
  next
    case (3 s)
    then show ?thesis
      by (auto simp add: generateNextQuestion_Session own_mutate Let_def)
  qed
  have start: "\<exists>s'. property (snd (api_start now sessionId sessions)) sessionId = Session s'
      \<and> createdAt s' = Some now"
    by (simp add: api_start_def)
  have kept: "\<forall>table s. wf_sessions table \<and> map_of table sessionId = Some s
      \<and> createdAt s = None \<longrightarrow> map_of (snd (cleanup t table)) sessionId = Some s"
    by (simp add: cleanup_filter map_of_filter_distinct wf_sessions_def date_lt_def)
  have evicted: "\<forall>s. map_of (own (run rs)) sessionId = Some s
      \<and> map_of (snd (cleanup t (own (run rs)))) sessionId = None \<longrightarrow>
        (\<exists>c. createdAt s = Some c \<and> c < t - 2 * 60 * 60 * 1000 \<and> Start sessionId c \<in> set rs)"
  proof (intro allI impI, elim conjE)
    fix s
    assume present: "map_of (own (run rs)) sessionId = Some s"
      and gone: "map_of (snd (cleanup t (own (run rs)))) sessionId = None"
    from run_invariant [of rs] have wf: "wf_sessions (own (run rs))"
      and origin: "\<forall>c. createdAt s = Some c \<longrightarrow> Start sessionId c \<in> set rs"
      using present by blast+
    from wf have dist: "distinct (map fst (own (run rs)))"
      by (simp add: wf_sessions_def)
    from gone present have "date_lt (createdAt s) (twoHoursAgo t)"
      by (simp add: cleanup_filter [OF wf] map_of_filter_distinct [OF dist] split: if_splits)
    then obtain c where "createdAt s = Some c" and "c < t - 2 * 60 * 60 * 1000"
      by (auto simp: date_lt_def twoHoursAgo_def split: option.splits)
    with origin show "\<exists>c. createdAt s = Some c \<and> c < t - 2 * 60 * 60 * 1000
        \<and> Start sessionId c \<in> set rs"
      by auto
  qed
  from chat question chat_only question_only start kept evicted show ?thesis
    by (intro conjI)
qed

text \<open>
  A run with a \<^verbatim>\<open>/api/start\<close> for one student at time \<open>0\<close> and a first chat message of
  another, with the model undefined. A cleanup more than thirty years later removes the first
  session and keeps the second.
\<close>

theorem implicit_sessions_never_expire_witness:
  "falsy (property empty_table (ascii ''S2''))
   \<and> (\<exists>s'. map_of (own (snd (handleDesignAssistant None (ascii ''S2'')
                                 [0x63A, 0x644, 0x627, 0x641] empty_table)))
               (ascii ''S2'') = Some s' \<and> createdAt s' = None)
   \<and> (\<exists>s'. map_of (own (snd (generateNextQuestion None (ascii ''S2'') empty_table)))
               (ascii ''S2'') = Some s'
          \<and> createdAt s' = None)
   \<and> wf_sessions
        (own (run [Start (ascii ''S1'') 0, Chat (ascii ''S2'') [0x63A, 0x644, 0x627, 0x641] None]))
   \<and> (\<exists>s. map_of
              (own (run [Start (ascii ''S1'') 0,
                         Chat (ascii ''S2'') [0x63A, 0x644, 0x627, 0x641] None]))
              (ascii ''S2'') = Some s
          \<and> createdAt s = None
          \<and> map_of (snd (cleanup 1000000000000
                (own (run [Start (ascii ''S1'') 0,
                           Chat (ascii ''S2'') [0x63A, 0x644, 0x627, 0x641] None]))))
              (ascii ''S2'') = Some s)
   \<and> (\<exists>s. map_of
              (own (run [Start (ascii ''S1'') 0,
                         Chat (ascii ''S2'') [0x63A, 0x644, 0x627, 0x641] None]))
              (ascii ''S1'') = Some s
          \<and> map_of (snd (cleanup 1000000000000
                (own (run [Start (ascii ''S1'') 0,
                           Chat (ascii ''S2'') [0x63A, 0x644, 0x627, 0x641] None]))))
              (ascii ''S1'') = None
          \<and> createdAt s = Some 0)"
proof -
  let ?msg = "[0x63A, 0x644, 0x627, 0x641] :: jsstring"
  let ?rs = "[Start (ascii ''S1'') 0, Chat (ascii ''S2'') ?msg None]"
  have absent: "falsy (property empty_table (ascii ''S2''))"
    by (simp add: property_empty_table object_prototype_names_def falsy_def)
  note fresh = implicit_sessions_never_expire [of empty_table "ascii ''S2''" None ?msg 0 0 "[]"]
  have started: "snd (api_start 0 (ascii ''S1'') empty_table)
      = \<lparr>own = [(ascii ''S1'', \<lparr>bmcData = Some (), chat = [], bmcProgress = Some 0, mode = Bmc,
                                createdAt = Some 0\<rparr>)], proto = None\<rparr>"
    by (simp add: api_start_def assign_def empty_table_def)
  have unknown: "falsy (property (snd (api_start 0 (ascii ''S1'') empty_table)) (ascii ''S2''))"
    unfolding started
    by (simp add: property_def object_prototype_prop_def object_prototype_names_def falsy_def)
  have table: "\<exists>reply. own (run ?rs) =
      [(ascii ''S1'', \<lparr>bmcData = Some (), chat = [], bmcProgress = Some 0, mode = Bmc,
                       createdAt = Some 0\<rparr>),
       (ascii ''S2'', \<lparr>bmcData = Some (),
                       chat = [\<lparr>role = User, content = ?msg\<rparr>,
                               \<lparr>role = Assistant, content = reply\<rparr>],
                       bmcProgress = Some 0, mode = Design, createdAt = None\<rparr>)]"
    by (simp add: run_def api_chat_def handleDesignAssistant_falsy [OF unknown]
        own_assign_falsy [OF unknown] Let_def) (simp add: started)
  then obtain reply where table: "own (run ?rs) =
      [(ascii ''S1'', \<lparr>bmcData = Some (), chat = [], bmcProgress = Some 0, mode = Bmc,
                       createdAt = Some 0\<rparr>),
       (ascii ''S2'', \<lparr>bmcData = Some (),
                       chat = [\<lparr>role = User, content = ?msg\<rparr>,
                               \<lparr>role = Assistant, content = reply\<rparr>],
                       bmcProgress = Some 0, mode = Design, createdAt = None\<rparr>)]"
    by blast
  have wf: "wf_sessions (own (run ?rs))"
    by (simp add: table wf_sessions_def)
  note implicit = implicit_sessions_never_expire
    [of "run ?rs" "ascii ''S2''" None ?msg 0 1000000000000 ?rs]
  have gone: "map_of (snd (cleanup 1000000000000 (own (run ?rs)))) (ascii ''S1'') = None"
    by (simp add: table cleanup_def twoHoursAgo_def date_lt_def)
  note evicted = implicit_sessions_never_expire
    [of "run ?rs" "ascii ''S1''" None ?msg 0 1000000000000 ?rs]
  from fresh absent have first: "(\<exists>s'. map_of (own (snd (handleDesignAssistant None (ascii ''S2'')
                                 ?msg empty_table)))
               (ascii ''S2'') = Some s' \<and> createdAt s' = None)
   \<and> (\<exists>s'. map_of (own (snd (generateNextQuestion None (ascii ''S2'') empty_table)))
               (ascii ''S2'') = Some s'
          \<and> createdAt s' = None)"
    by blast
  from implicit wf have kept: "\<forall>s. map_of (own (run ?rs)) (ascii ''S2'') = Some s
        \<and> createdAt s = None \<longrightarrow>
      map_of (snd (cleanup 1000000000000 (own (run ?rs)))) (ascii ''S2'') = Some s"
    by blast
  have second: "\<exists>s. map_of (own (run ?rs)) (ascii ''S2'') = Some s \<and> createdAt s = None
      \<and> map_of (snd (cleanup 1000000000000 (own (run ?rs)))) (ascii ''S2'') = Some s"
    using kept by (simp add: table)
  from evicted gone have third: "\<exists>s. map_of (own (run ?rs)) (ascii ''S1'') = Some s
      \<and> map_of (snd (cleanup 1000000000000 (own (run ?rs)))) (ascii ''S1'') = None
      \<and> createdAt s = Some 0"
    by (simp add: table)
  from absent first wf second third show ?thesis
    by (intro conjI) blast+
qed

section \<open>The progress through the sections\<close>

lemma first_sections:
  "index BMC_SECTIONS 0 = Some (ascii ''Key Partners'')"
  "index BMC_SECTIONS 1 = Some (ascii ''Key Activities'')"
  "index BMC_SECTIONS (Suc 0) = Some (ascii ''Key Activities'')"
  by (simp_all add: index_def BMC_SECTIONS_def)

lemma first_questions:
  "\<exists>q1 q2. map_of fallbackQuestions (ascii ''Key Partners'') = Some q1
     \<and> map_of fallbackQuestions (ascii ''Key Activities'') = Some q2
     \<and> q1 \<noteq> q2
     \<and> fallbackMessage (Some (ascii ''Key Partners'')) = q1
     \<and> fallbackMessage (Some (ascii ''Key Activities'')) = q2"
  by (simp add: fallbackQuestions_def fallbackMessage_def lookup_def or_else_def
      template_arg_def)

lemma current_section_progress:
  "property sessions sessionId = Session s \<Longrightarrow> bmcProgress s = Some k \<Longrightarrow>
   current_section sessionId sessions = index BMC_SECTIONS (k mod 9)"
  by (simp add: current_section_def length_BMC_SECTIONS)

lemma advance_Session:
  "property sessions sessionId = Session s \<Longrightarrow> bmcProgress s = Some k \<Longrightarrow>
   advance sessionId sessions
     = Inr (mutate sessions sessionId (s\<lparr>bmcProgress := Some (k + 1)\<rparr>))"
  by (simp add: advance_def)

text \<open>
  Claim C2: after \<^verbatim>\<open>/api/start\<close> for a student, the next question, when the generation
  fails, is the fixed question of "Key Partners", and the transcript then has length 1;
  the question leaves the progress at \<open>0\<close>. After the step that advances the session, the
  progress is \<open>1\<close> and the next question, when the generation fails, is the fixed question of
  "Key Activities", which is another text. The two questions are the answers of
  \<^verbatim>\<open>/api/next\<close>; the step in between is \<open>advance\<close>, as the specification has it.
\<close>

theorem start_next_advance_next:
  assumes "generate m1 (bmc_prompt (Some (ascii ''Key Partners''))) = Inl e1"
    and "generate m2 (bmc_prompt (Some (ascii ''Key Activities''))) = Inl e2"
  shows "\<exists>q1 q2 t1 t2 s2 t3 t4 s4.
      map_of fallbackQuestions (ascii ''Key Partners'') = Some q1
    \<and> map_of fallbackQuestions (ascii ''Key Activities'') = Some q2
    \<and> q1 \<noteq> q2
    \<and> api_start now S1 sessions = (SessionStarted S1, t1)
    \<and> api_next m1 S1 t1 = (NextQuestion q1 (Some 0) 9, t2)
    \<and> property t2 S1 = Session s2
    \<and> chat s2 = [\<lparr>role = Assistant, content = q1\<rparr>]
    \<and> length (chat s2) = 1
    \<and> bmcProgress s2 = Some 0
    \<and> advance S1 t2 = Inr t3
    \<and> property t3 S1 = Session (s2\<lparr>bmcProgress := Some 1\<rparr>)
    \<and> api_next m2 S1 t3 = (NextQuestion q2 (Some 1) 9, t4)
    \<and> property t4 S1 = Session s4
    \<and> chat s4 = [\<lparr>role = Assistant, content = q1\<rparr>, \<lparr>role = Assistant, content = q2\<rparr>]
    \<and> bmcProgress s4 = Some 1"
proof -
  from first_questions obtain q1 q2
    where q1: "map_of fallbackQuestions (ascii ''Key Partners'') = Some q1"
      and q2: "map_of fallbackQuestions (ascii ''Key Activities'') = Some q2"
      and differ: "q1 \<noteq> q2"
      and message1: "fallbackMessage (Some (ascii ''Key Partners'')) = q1"
      and message2: "fallbackMessage (Some (ascii ''Key Activities'')) = q2"
    by blast
  let ?s1 = "\<lparr>bmcData = Some (), chat = [], bmcProgress = Some 0, mode = Bmc,
              createdAt = Some now\<rparr>"
  let ?t1 = "assign sessions S1 ?s1"
  let ?s2 = "?s1\<lparr>chat := [\<lparr>role = Assistant, content = q1\<rparr>]\<rparr>"
  let ?t2 = "mutate ?t1 S1 ?s2"
  let ?s3 = "?s2\<lparr>bmcProgress := Some 1\<rparr>"
  let ?t3 = "mutate ?t2 S1 ?s3"
  let ?s4 = "?s3\<lparr>chat := [\<lparr>role = Assistant, content = q1\<rparr>, \<lparr>role = Assistant, content = q2\<rparr>]\<rparr>"
  let ?t4 = "mutate ?t3 S1 ?s4"
  have start: "api_start now S1 sessions = (SessionStarted S1, ?t1)"
    by (simp add: api_start_def)
  have p1: "property ?t1 S1 = Session ?s1"
    by (rule property_assign)
  have section1: "current_section S1 ?t1 = Some (ascii ''Key Partners'')"
    using current_section_progress [OF p1, of 0] by (simp add: first_sections)
  have next1: "api_next m1 S1 ?t1 = (NextQuestion q1 (Some 0) 9, ?t2)"
    unfolding api_next_Session [OF p1] section1 Let_def
    using assms(1) by (simp add: message1 length_BMC_SECTIONS)
  have p2: "property ?t2 S1 = Session ?s2"
    using p1 by (rule property_mutate)
  have step: "advance S1 ?t2 = Inr ?t3"
    using advance_Session [OF p2, of 0] by simp
  have p3: "property ?t3 S1 = Session ?s3"
    using p2 by (rule property_mutate)
  have section3: "current_section S1 ?t3 = Some (ascii ''Key Activities'')"
    using current_section_progress [OF p3, of 1] by (simp add: first_sections)
  have next3: "api_next m2 S1 ?t3 = (NextQuestion q2 (Some 1) 9, ?t4)"
    unfolding api_next_Session [OF p3] section3 Let_def
    using assms(2) by (simp add: message2 length_BMC_SECTIONS)
  have p4: "property ?t4 S1 = Session ?s4"
    using p3 by (rule property_mutate)
  have "map_of fallbackQuestions (ascii ''Key Partners'') = Some q1
    \<and> map_of fallbackQuestions (ascii ''Key Activities'') = Some q2
    \<and> q1 \<noteq> q2
    \<and> api_start now S1 sessions = (SessionStarted S1, ?t1)
    \<and> api_next m1 S1 ?t1 = (NextQuestion q1 (Some 0) 9, ?t2)
    \<and> property ?t2 S1 = Session ?s2
    \<and> chat ?s2 = [\<lparr>role = Assistant, content = q1\<rparr>]
    \<and> length (chat ?s2) = 1
    \<and> bmcProgress ?s2 = Some 0
    \<and> advance S1 ?t2 = Inr ?t3
    \<and> property ?t3 S1 = Session (?s2\<lparr>bmcProgress := Some 1\<rparr>)
    \<and> api_next m2 S1 ?t3 = (NextQuestion q2 (Some 1) 9, ?t4)
    \<and> property ?t4 S1 = Session ?s4
    \<and> chat ?s4 = [\<lparr>role = Assistant, content = q1\<rparr>, \<lparr>role = Assistant, content = q2\<rparr>]
    \<and> bmcProgress ?s4 = Some 1"
    using q1 q2 differ start next1 p2 step p3 next3 p4 by simp
  then show ?thesis
    by blast
qed

text \<open>
  With the model undefined at both questions, for the student \<^verbatim>\<open>S1\<close>, from the table of a
  server that has seen no request.
\<close>

theorem start_next_advance_next_witness:
  "generate None (bmc_prompt (Some (ascii ''Key Partners''))) = Inl (Some TypeError)
   \<and> generate None (bmc_prompt (Some (ascii ''Key Activities''))) = Inl (Some TypeError)
   \<and> (\<exists>q1 q2 t1 t2 s2 t3 t4.
         map_of fallbackQuestions (ascii ''Key Partners'') = Some q1
       \<and> map_of fallbackQuestions (ascii ''Key Activities'') = Some q2
       \<and> q1 \<noteq> q2
       \<and> api_start 0 (ascii ''S1'') empty_table = (SessionStarted (ascii ''S1''), t1)
       \<and> api_next None (ascii ''S1'') t1 = (NextQuestion q1 (Some 0) 9, t2)
       \<and> property t2 (ascii ''S1'') = Session s2
       \<and> length (chat s2) = 1
       \<and> advance (ascii ''S1'') t2 = Inr t3
       \<and> api_next None (ascii ''S1'') t3 = (NextQuestion q2 (Some 1) 9, t4))"
proof -
  from start_next_advance_next
    [of None "Some TypeError" None "Some TypeError" 0 "ascii ''S1''" empty_table]
  have "\<exists>q1 q2 t1 t2 s2 t3 t4.
         map_of fallbackQuestions (ascii ''Key Partners'') = Some q1
       \<and> map_of fallbackQuestions (ascii ''Key Activities'') = Some q2
       \<and> q1 \<noteq> q2
       \<and> api_start 0 (ascii ''S1'') empty_table = (SessionStarted (ascii ''S1''), t1)
       \<and> api_next None (ascii ''S1'') t1 = (NextQuestion q1 (Some 0) 9, t2)
       \<and> property t2 (ascii ''S1'') = Session s2
       \<and> length (chat s2) = 1
       \<and> advance (ascii ''S1'') t2 = Inr t3
       \<and> api_next None (ascii ''S1'') t3 = (NextQuestion q2 (Some 1) 9, t4)"
    unfolding generate_unavailable by blast
  then show ?thesis
    by (simp add: generate_unavailable)
qed


end
